theory Spec2Isabelle
  imports Complex_Main
begin

section \<open>Numbers\<close>

text \<open>
  The solver (\<^verbatim>\<open>utils/hexapodLogic.ts\<close>) computes on JavaScript numbers. They are
  modelled as real numbers: rounding and overflow are left out, and a zero is the
  positive zero. On finite inputs every operation the solver uses is then total, except
  the two divisions of the law of cosines. A division by zero gives an infinity or NaN
  in the source, and HOL's \<open>a / 0 = 0\<close> would hide that, so the quotient gets a type
  of its own and the NaN it may carry is followed to the end: an angle that may be NaN
  is a \<open>real option\<close>, with \<open>None\<close> for NaN. What rounding does to the foot position
  is the subject of a second, binary64 transcription of the path to the foot, further
  down.
\<close>

datatype number = Fin real | PosInf | NegInf | NaN

text \<open>
  \<^verbatim>\<open>a / b\<close>. The divisors of the solver are \<^verbatim>\<open>2 * femur * c\<close> and
  \<^verbatim>\<open>2 * femur * tibia\<close>; with positive lengths a zero divisor is \<^verbatim>\<open>+0\<close> (the
  square root \<^verbatim>\<open>c\<close> is), so the sign of an infinite quotient is the sign of the
  numerator, and \<^verbatim>\<open>0 / 0\<close> is NaN.
\<close>

definition js_div :: "real \<Rightarrow> real \<Rightarrow> number" where
  "js_div a b =
     (if b \<noteq> 0 then Fin (a / b)
      else if 0 < a then PosInf
      else if a < 0 then NegInf
      else NaN)"

text \<open>\<^verbatim>\<open>Math.min\<close> and \<^verbatim>\<open>Math.max\<close>: NaN if either argument is NaN.\<close>

fun Math_min :: "number \<Rightarrow> number \<Rightarrow> number" where
  "Math_min NaN _ = NaN"
| "Math_min _ NaN = NaN"
| "Math_min NegInf _ = NegInf"
| "Math_min _ NegInf = NegInf"
| "Math_min PosInf b = b"
| "Math_min a PosInf = a"
| "Math_min (Fin a) (Fin b) = Fin (min a b)"

fun Math_max :: "number \<Rightarrow> number \<Rightarrow> number" where
  "Math_max NaN _ = NaN"
| "Math_max _ NaN = NaN"
| "Math_max PosInf _ = PosInf"
| "Math_max _ PosInf = PosInf"
| "Math_max NegInf b = b"
| "Math_max a NegInf = a"
| "Math_max (Fin a) (Fin b) = Fin (max a b)"

text \<open>\<^verbatim>\<open>Math.acos\<close>: NaN outside \<open>[-1, 1]\<close> and at NaN.\<close>

fun Math_acos :: "number \<Rightarrow> real option" where
  "Math_acos (Fin a) = (if - 1 \<le> a \<and> a \<le> 1 then Some (arccos a) else None)"
| "Math_acos _ = None"

text \<open>
  \<^verbatim>\<open>Math.atan2(b, a)\<close>, the angle of the point \<open>(a, b)\<close> in \<open>(-\<pi>, \<pi>]\<close>, and \<open>0\<close> at the
  origin.
\<close>

definition atan2 :: "real \<Rightarrow> real \<Rightarrow> real" where
  "atan2 b a =
     (if 0 < a then arctan (b / a)
      else if a < 0 then (if 0 \<le> b then arctan (b / a) + pi else arctan (b / a) - pi)
      else if 0 < b then pi / 2
      else if b < 0 then - (pi / 2)
      else 0)"

definition toRad :: "real \<Rightarrow> real" where
  "toRad deg = (deg * pi) / 180"

definition toDeg :: "real \<Rightarrow> real" where
  "toDeg rad = (rad * 180) / pi"

section \<open>Data model (\<^verbatim>\<open>types.ts\<close>)\<close>

record Point3D =
  x :: real
  y :: real
  z :: real

text \<open>
  The joints of a leg. The femur joint is computed from the femur angle: when that angle
  is NaN, every coordinate of the joint is a sum of products with a NaN operand, hence
  NaN, and the joint is \<open>None\<close>.
\<close>

record Joints =
  bodyContact :: Point3D
  coxa :: Point3D
  femur :: "Point3D option"
  foot :: Point3D

record LegConfiguration =
  legId :: nat
  coxaAngle :: real
  femurAngle :: "real option"
  tibiaAngle :: "real option"
  joints :: Joints

record HexapodConfiguration =
  legs :: "LegConfiguration list"
  bodyCorners :: "Point3D list"

record HexapodDimensions =
  front :: real
  side :: real
  middle :: real
  coxa :: real
  femur :: real
  tibia :: real

record BodyPose =
  tx :: real
  ty :: real
  tz :: real
  rx :: real
  ry :: real
  rz :: real

section \<open>Rotations\<close>

definition rotateX :: "Point3D \<Rightarrow> real \<Rightarrow> Point3D" where
  "rotateX p theta =
     \<lparr>x = x p,
      y = y p * cos theta - z p * sin theta,
      z = y p * sin theta + z p * cos theta\<rparr>"

definition rotateY :: "Point3D \<Rightarrow> real \<Rightarrow> Point3D" where
  "rotateY p theta =
     \<lparr>x = x p * cos theta + z p * sin theta,
      y = y p,
      z = - x p * sin theta + z p * cos theta\<rparr>"

definition rotateZ :: "Point3D \<Rightarrow> real \<Rightarrow> Point3D" where
  "rotateZ p theta =
     \<lparr>x = x p * cos theta - y p * sin theta,
      y = x p * sin theta + y p * cos theta,
      z = z p\<rparr>"

section \<open>Geometry builder\<close>

definition getLocalBodyPoints :: "HexapodDimensions \<Rightarrow> Point3D list" where
  "getLocalBodyPoints dims =
     [\<lparr>x = middle dims, y = 0, z = 0\<rparr>,
      \<lparr>x = side dims, y = - front dims, z = 0\<rparr>,
      \<lparr>x = - side dims, y = - front dims, z = 0\<rparr>,
      \<lparr>x = - middle dims, y = 0, z = 0\<rparr>,
      \<lparr>x = - side dims, y = front dims, z = 0\<rparr>,
      \<lparr>x = side dims, y = front dims, z = 0\<rparr>]"

definition legReach :: "HexapodDimensions \<Rightarrow> real" where
  "legReach dims = coxa dims + femur dims + tibia dims * 0.5"

text \<open>The callback of the \<^verbatim>\<open>map\<close> in \<^verbatim>\<open>getFixedFootPoints\<close>.\<close>

definition fixedFootPoint :: "HexapodDimensions \<Rightarrow> Point3D \<Rightarrow> Point3D" where
  "fixedFootPoint dims hip =
     (let angle = atan2 (y hip) (x hip);
          reach = sqrt (x hip * x hip + y hip * y hip) + legReach dims
      in \<lparr>x = cos angle * reach, y = sin angle * reach, z = 0\<rparr>)"

definition getFixedFootPoints :: "HexapodDimensions \<Rightarrow> Point3D list" where
  "getFixedFootPoints dims = map (fixedFootPoint dims) (getLocalBodyPoints dims)"

section \<open>Pose transformer\<close>

text \<open>
  The forward transform. The source writes it twice with the same body: the callback
  that builds \<^verbatim>\<open>worldBodyPoints\<close> and the local function \<^verbatim>\<open>toWorld\<close>.
\<close>

definition toWorld :: "BodyPose \<Rightarrow> Point3D \<Rightarrow> Point3D" where
  "toWorld pose p =
     (let curr = rotateZ (rotateY (rotateX p (toRad (rx pose))) (toRad (ry pose))) (toRad (rz pose))
      in \<lparr>x = x curr + tx pose, y = y curr + ty pose, z = z curr + tz pose\<rparr>)"

text \<open>The inverse transform of the foot: \<^verbatim>\<open>fLocal\<close>, as a function of \<^verbatim>\<open>footWorld\<close>.\<close>

definition fLocal :: "BodyPose \<Rightarrow> Point3D \<Rightarrow> Point3D" where
  "fLocal pose footWorld =
     rotateX
       (rotateY
          (rotateZ
             \<lparr>x = x footWorld - tx pose, y = y footWorld - ty pose, z = z footWorld - tz pose\<rparr>
             (- toRad (rz pose)))
          (- toRad (ry pose)))
       (- toRad (rx pose))"

section \<open>Leg solver\<close>

text \<open>
  The local constants of the per-leg callback of \<^verbatim>\<open>solveHexapodIK\<close>, each under its
  name in the source, as functions of what they are computed from. The radian angles
  \<^verbatim>\<open>coxaAngle\<close> and \<^verbatim>\<open>femurAngle\<close> carry the suffix \<open>_rad\<close>, the fields of the
  result being in degrees. \<^verbatim>\<open>localHip\<close> and \<^verbatim>\<open>hipLocal\<close> are the same point
  \<^verbatim>\<open>localBodyPoints[index]\<close>. Two locals are computed and never read, and are left
  out: the world vector \<^verbatim>\<open>v\<close> from hip to foot and \<^verbatim>\<open>tibiaAngle = gammaTri - Math.PI\<close>.
\<close>

definition mountAngle :: "Point3D \<Rightarrow> real" where
  "mountAngle localHip = atan2 (y localHip) (x localHip)"

definition vLocal :: "BodyPose \<Rightarrow> Point3D \<Rightarrow> Point3D \<Rightarrow> Point3D" where
  "vLocal pose footWorld hipLocal =
     \<lparr>x = x (fLocal pose footWorld) - x hipLocal,
      y = y (fLocal pose footWorld) - y hipLocal,
      z = z (fLocal pose footWorld) - z hipLocal\<rparr>"

definition vLeg :: "BodyPose \<Rightarrow> Point3D \<Rightarrow> Point3D \<Rightarrow> Point3D" where
  "vLeg pose footWorld hipLocal =
     rotateZ (vLocal pose footWorld hipLocal) (- mountAngle hipLocal)"

text \<open>From here on the argument \<open>v\<close> is the leg-frame vector \<^verbatim>\<open>vLeg\<close>.\<close>

definition coxaAngle_rad :: "Point3D \<Rightarrow> real" where
  "coxaAngle_rad v = atan2 (y v) (x v)"

definition planarDist :: "Point3D \<Rightarrow> real" where
  "planarDist v = sqrt (x v * x v + y v * y v)"

definition reach :: "HexapodDimensions \<Rightarrow> Point3D \<Rightarrow> real" where
  "reach dims v = planarDist v - coxa dims"

definition height :: "Point3D \<Rightarrow> real" where
  "height v = z v"

definition c :: "HexapodDimensions \<Rightarrow> Point3D \<Rightarrow> real" where
  "c dims v = sqrt (reach dims v * reach dims v + height v * height v)"

definition alphaTri :: "HexapodDimensions \<Rightarrow> Point3D \<Rightarrow> real" where
  "alphaTri dims v = atan2 (height v) (reach dims v)"

definition cosBeta :: "HexapodDimensions \<Rightarrow> Point3D \<Rightarrow> number" where
  "cosBeta dims v =
     js_div (femur dims * femur dims + c dims v * c dims v - tibia dims * tibia dims)
            (2 * femur dims * c dims v)"

definition clampedCosBeta :: "HexapodDimensions \<Rightarrow> Point3D \<Rightarrow> number" where
  "clampedCosBeta dims v = Math_max (Fin (- 1)) (Math_min (Fin 1) (cosBeta dims v))"

definition betaTri :: "HexapodDimensions \<Rightarrow> Point3D \<Rightarrow> real option" where
  "betaTri dims v = Math_acos (clampedCosBeta dims v)"

definition femurAngle_rad :: "HexapodDimensions \<Rightarrow> Point3D \<Rightarrow> real option" where
  "femurAngle_rad dims v = map_option (\<lambda>b. alphaTri dims v + b) (betaTri dims v)"

definition cosGamma :: "HexapodDimensions \<Rightarrow> Point3D \<Rightarrow> number" where
  "cosGamma dims v =
     js_div (femur dims * femur dims + tibia dims * tibia dims - c dims v * c dims v)
            (2 * femur dims * tibia dims)"

definition clampedCosGamma :: "HexapodDimensions \<Rightarrow> Point3D \<Rightarrow> number" where
  "clampedCosGamma dims v = Math_max (Fin (- 1)) (Math_min (Fin 1) (cosGamma dims v))"

definition gammaTri :: "HexapodDimensions \<Rightarrow> Point3D \<Rightarrow> real option" where
  "gammaTri dims v = Math_acos (clampedCosGamma dims v)"

subsection \<open>Forward kinematics\<close>

definition p1_leg :: "HexapodDimensions \<Rightarrow> Point3D \<Rightarrow> Point3D" where
  "p1_leg dims v =
     \<lparr>x = coxa dims * cos (coxaAngle_rad v),
      y = coxa dims * sin (coxaAngle_rad v),
      z = 0\<rparr>"

text \<open>\<open>fa\<close> is the femur angle, when it is a number.\<close>

definition fem_h :: "HexapodDimensions \<Rightarrow> real \<Rightarrow> real" where
  "fem_h dims fa = femur dims * cos fa"

definition fem_v :: "HexapodDimensions \<Rightarrow> real \<Rightarrow> real" where
  "fem_v dims fa = femur dims * sin fa"

text \<open>The plane points \<^verbatim>\<open>{h, v}\<close> are pairs.\<close>

definition p2_plane :: "HexapodDimensions \<Rightarrow> real \<Rightarrow> real \<times> real" where
  "p2_plane dims fa = (coxa dims + fem_h dims fa, fem_v dims fa)"

definition p3_plane :: "HexapodDimensions \<Rightarrow> Point3D \<Rightarrow> real \<times> real" where
  "p3_plane dims v = (coxa dims + reach dims v, height v)"

definition p2_leg :: "HexapodDimensions \<Rightarrow> Point3D \<Rightarrow> real \<Rightarrow> Point3D" where
  "p2_leg dims v fa =
     \<lparr>x = fst (p2_plane dims fa) * cos (coxaAngle_rad v),
      y = fst (p2_plane dims fa) * sin (coxaAngle_rad v),
      z = snd (p2_plane dims fa)\<rparr>"

definition p3_leg :: "HexapodDimensions \<Rightarrow> Point3D \<Rightarrow> Point3D" where
  "p3_leg dims v =
     \<lparr>x = fst (p3_plane dims v) * cos (coxaAngle_rad v),
      y = fst (p3_plane dims v) * sin (coxaAngle_rad v),
      z = snd (p3_plane dims v)\<rparr>"

text \<open>
  \<^verbatim>\<open>j1_local\<close>, \<^verbatim>\<open>j2_local\<close> and \<^verbatim>\<open>j3_local\<close>: the leg point rotated by the mount
  angle (\<^verbatim>\<open>p1_body\<close>, \<^verbatim>\<open>p2_body\<close>, \<^verbatim>\<open>p3_body\<close>) and moved to the hip.
\<close>

definition j1_local :: "HexapodDimensions \<Rightarrow> Point3D \<Rightarrow> Point3D \<Rightarrow> Point3D" where
  "j1_local dims v hipLocal =
     (let p1_body = rotateZ (p1_leg dims v) (mountAngle hipLocal)
      in \<lparr>x = x p1_body + x hipLocal, y = y p1_body + y hipLocal, z = z p1_body + z hipLocal\<rparr>)"

definition j2_local :: "HexapodDimensions \<Rightarrow> Point3D \<Rightarrow> real \<Rightarrow> Point3D \<Rightarrow> Point3D" where
  "j2_local dims v fa hipLocal =
     (let p2_body = rotateZ (p2_leg dims v fa) (mountAngle hipLocal)
      in \<lparr>x = x p2_body + x hipLocal, y = y p2_body + y hipLocal, z = z p2_body + z hipLocal\<rparr>)"

definition j3_local :: "HexapodDimensions \<Rightarrow> Point3D \<Rightarrow> Point3D \<Rightarrow> Point3D" where
  "j3_local dims v hipLocal =
     (let p3_body = rotateZ (p3_leg dims v) (mountAngle hipLocal)
      in \<lparr>x = x p3_body + x hipLocal, y = y p3_body + y hipLocal, z = z p3_body + z hipLocal\<rparr>)"

subsection \<open>The solver\<close>

text \<open>
  The per-leg callback. \<^verbatim>\<open>footWorld\<close> and \<^verbatim>\<open>hipLocal\<close> are read at \<^verbatim>\<open>index\<close>
  from lists of six points, and \<^verbatim>\<open>index\<close> runs over the six hips.
\<close>

definition solveLeg ::
  "HexapodDimensions \<Rightarrow> BodyPose \<Rightarrow> Point3D list \<Rightarrow> Point3D list \<Rightarrow> Point3D \<Rightarrow> nat
     \<Rightarrow> LegConfiguration" where
  "solveLeg dims pose localBodyPoints fixedFootPoints hipWorld index =
     (let footWorld = fixedFootPoints ! index;
          hipLocal = localBodyPoints ! index;
          v = vLeg pose footWorld hipLocal
      in \<lparr>legId = index,
          coxaAngle = toDeg (coxaAngle_rad v),
          femurAngle = map_option toDeg (femurAngle_rad dims v),
          tibiaAngle = map_option toDeg (gammaTri dims v),
          joints =
            \<lparr>bodyContact = hipWorld,
             Joints.coxa = toWorld pose (j1_local dims v hipLocal),
             Joints.femur =
               map_option (\<lambda>fa. toWorld pose (j2_local dims v fa hipLocal)) (femurAngle_rad dims v),
             foot = toWorld pose (j3_local dims v hipLocal)\<rparr>\<rparr>)"

definition solveHexapodIK :: "HexapodDimensions \<Rightarrow> BodyPose \<Rightarrow> HexapodConfiguration" where
  "solveHexapodIK dims pose =
     (let localBodyPoints = getLocalBodyPoints dims;
          fixedFootPoints = getFixedFootPoints dims;
          worldBodyPoints = map (toWorld pose) localBodyPoints;
          legs =
            map (\<lambda>(hipWorld, index). solveLeg dims pose localBodyPoints fixedFootPoints hipWorld index)
              (zip worldBodyPoints [0..<length worldBodyPoints])
      in \<lparr>legs = legs, bodyCorners = worldBodyPoints\<rparr>)"

section \<open>The application's defaults (\<^verbatim>\<open>App.tsx\<close>)\<close>

definition DEFAULT_DIMENSIONS :: HexapodDimensions where
  "DEFAULT_DIMENSIONS =
     \<lparr>front = 100, side = 100, middle = 100, coxa = 50, femur = 100, tibia = 120\<rparr>"

definition DEFAULT_POSE :: BodyPose where
  "DEFAULT_POSE = \<lparr>tx = 0, ty = 0, tz = 80, rx = 0, ry = 0, rz = 0\<rparr>"

section \<open>Notions used by the properties\<close>

text \<open>Euclidean distance between two points.\<close>

definition dist3 :: "Point3D \<Rightarrow> Point3D \<Rightarrow> real" where
  "dist3 p q = sqrt ((x p - x q)\<^sup>2 + (y p - y q)\<^sup>2 + (z p - z q)\<^sup>2)"

text \<open>The body center.\<close>

definition origin :: Point3D where
  "origin = \<lparr>x = 0, y = 0, z = 0\<rparr>"

text \<open>The invariant of the dimensions: six positive scalars.\<close>

definition positiveDims :: "HexapodDimensions \<Rightarrow> bool" where
  "positiveDims dims \<longleftrightarrow>
     0 < front dims \<and> 0 < side dims \<and> 0 < middle dims \<and>
     0 < coxa dims \<and> 0 < femur dims \<and> 0 < tibia dims"

text \<open>The pose that is the identity in every component except \<open>tz\<close>.\<close>

definition heightPose :: "real \<Rightarrow> BodyPose" where
  "heightPose t = \<lparr>tx = 0, ty = 0, tz = t, rx = 0, ry = 0, rz = 0\<rparr>"

section \<open>The foot in binary64\<close>

text \<open>
  The real numbers above leave rounding out. To see what rounding does to the foot, the
  path of the source from the dimensions and the pose to \<^verbatim>\<open>joints.foot\<close> is written a
  second time, with every arithmetic operation rounded to binary64. A finite binary64
  number is the real number it denotes, and \<open>fl\<close> rounds a real number to the nearest
  number with a significand of 53 bits, a tie to the even significand. The exponent is
  not bounded: overflow and subnormal numbers are left out, and a zero has no sign.
  Addition, subtraction, multiplication, division and \<^verbatim>\<open>Math.sqrt\<close> are correctly
  rounded, and negation is exact. \<^verbatim>\<open>Math.cos\<close>, \<^verbatim>\<open>Math.sin\<close> and \<^verbatim>\<open>Math.atan2\<close>
  are approximated by the implementation and are taken correctly rounded here; where
  they are evaluated below, at \<open>cos 0\<close>, \<open>sin 0\<close> and \<open>atan2 0 a\<close> with \<open>a > 0\<close>, the
  language fixes the results \<open>1\<close>, \<open>0\<close> and \<open>0\<close>, as here.
\<close>

text \<open>Rounding to the nearest integer, a tie to the even one.\<close>

definition rne :: "real \<Rightarrow> int" where
  "rne q =
     (let f = \<lfloor>q\<rfloor>
      in if q - of_int f < 1 / 2 then f
         else if 1 / 2 < q - of_int f then f + 1
         else if even f then f
         else f + 1)"

text \<open>
  Rounding to binary64: \<open>u\<close> is the unit in the last place of the binade of \<open>r\<close>.
\<close>

definition fl :: "real \<Rightarrow> real" where
  "fl r =
     (if r = 0 then 0
      else let u = 2 powr of_int (\<lfloor>log 2 \<bar>r\<bar>\<rfloor> - 52)
           in of_int (rne (r / u)) * u)"

text \<open>The library functions and the constant \<^verbatim>\<open>Math.PI\<close>.\<close>

definition Math_PI :: real where
  "Math_PI = fl pi"

definition Math_sqrt_f64 :: "real \<Rightarrow> real" where
  "Math_sqrt_f64 a = fl (sqrt a)"

definition Math_cos_f64 :: "real \<Rightarrow> real" where
  "Math_cos_f64 t = fl (cos t)"

definition Math_sin_f64 :: "real \<Rightarrow> real" where
  "Math_sin_f64 t = fl (sin t)"

definition Math_atan2_f64 :: "real \<Rightarrow> real \<Rightarrow> real" where
  "Math_atan2_f64 b a = fl (atan2 b a)"

text \<open>
  The functions of the source on the way to \<^verbatim>\<open>joints.foot\<close>, under their names with
  the suffix \<open>_f64\<close>. \<^verbatim>\<open>getLocalBodyPoints\<close> only negates and is used as it is.
\<close>

definition toRad_f64 :: "real \<Rightarrow> real" where
  "toRad_f64 deg = fl (fl (deg * Math_PI) / 180)"

definition rotateX_f64 :: "Point3D \<Rightarrow> real \<Rightarrow> Point3D" where
  "rotateX_f64 p theta =
     \<lparr>x = x p,
      y = fl (fl (y p * Math_cos_f64 theta) - fl (z p * Math_sin_f64 theta)),
      z = fl (fl (y p * Math_sin_f64 theta) + fl (z p * Math_cos_f64 theta))\<rparr>"

definition rotateY_f64 :: "Point3D \<Rightarrow> real \<Rightarrow> Point3D" where
  "rotateY_f64 p theta =
     \<lparr>x = fl (fl (x p * Math_cos_f64 theta) + fl (z p * Math_sin_f64 theta)),
      y = y p,
      z = fl (fl (- x p * Math_sin_f64 theta) + fl (z p * Math_cos_f64 theta))\<rparr>"

definition rotateZ_f64 :: "Point3D \<Rightarrow> real \<Rightarrow> Point3D" where
  "rotateZ_f64 p theta =
     \<lparr>x = fl (fl (x p * Math_cos_f64 theta) - fl (y p * Math_sin_f64 theta)),
      y = fl (fl (x p * Math_sin_f64 theta) + fl (y p * Math_cos_f64 theta)),
      z = z p\<rparr>"

definition legReach_f64 :: "HexapodDimensions \<Rightarrow> real" where
  "legReach_f64 dims = fl (fl (coxa dims + femur dims) + fl (tibia dims * 0.5))"

definition fixedFootPoint_f64 :: "HexapodDimensions \<Rightarrow> Point3D \<Rightarrow> Point3D" where
  "fixedFootPoint_f64 dims hip =
     (let angle = Math_atan2_f64 (y hip) (x hip);
          reach = fl (Math_sqrt_f64 (fl (fl (x hip * x hip) + fl (y hip * y hip)))
                      + legReach_f64 dims)
      in \<lparr>x = fl (Math_cos_f64 angle * reach), y = fl (Math_sin_f64 angle * reach), z = 0\<rparr>)"

definition getFixedFootPoints_f64 :: "HexapodDimensions \<Rightarrow> Point3D list" where
  "getFixedFootPoints_f64 dims = map (fixedFootPoint_f64 dims) (getLocalBodyPoints dims)"

definition toWorld_f64 :: "BodyPose \<Rightarrow> Point3D \<Rightarrow> Point3D" where
  "toWorld_f64 pose p =
     (let curr = rotateZ_f64 (rotateY_f64 (rotateX_f64 p (toRad_f64 (rx pose)))
                   (toRad_f64 (ry pose))) (toRad_f64 (rz pose))
      in \<lparr>x = fl (x curr + tx pose), y = fl (y curr + ty pose), z = fl (z curr + tz pose)\<rparr>)"

definition fLocal_f64 :: "BodyPose \<Rightarrow> Point3D \<Rightarrow> Point3D" where
  "fLocal_f64 pose footWorld =
     rotateX_f64
       (rotateY_f64
          (rotateZ_f64
             \<lparr>x = fl (x footWorld - tx pose), y = fl (y footWorld - ty pose),
              z = fl (z footWorld - tz pose)\<rparr>
             (- toRad_f64 (rz pose)))
          (- toRad_f64 (ry pose)))
       (- toRad_f64 (rx pose))"

definition mountAngle_f64 :: "Point3D \<Rightarrow> real" where
  "mountAngle_f64 localHip = Math_atan2_f64 (y localHip) (x localHip)"

definition vLocal_f64 :: "BodyPose \<Rightarrow> Point3D \<Rightarrow> Point3D \<Rightarrow> Point3D" where
  "vLocal_f64 pose footWorld hipLocal =
     \<lparr>x = fl (x (fLocal_f64 pose footWorld) - x hipLocal),
      y = fl (y (fLocal_f64 pose footWorld) - y hipLocal),
      z = fl (z (fLocal_f64 pose footWorld) - z hipLocal)\<rparr>"

definition vLeg_f64 :: "BodyPose \<Rightarrow> Point3D \<Rightarrow> Point3D \<Rightarrow> Point3D" where
  "vLeg_f64 pose footWorld hipLocal =
     rotateZ_f64 (vLocal_f64 pose footWorld hipLocal) (- mountAngle_f64 hipLocal)"

definition coxaAngle_f64 :: "Point3D \<Rightarrow> real" where
  "coxaAngle_f64 v = Math_atan2_f64 (y v) (x v)"

definition planarDist_f64 :: "Point3D \<Rightarrow> real" where
  "planarDist_f64 v = Math_sqrt_f64 (fl (fl (x v * x v) + fl (y v * y v)))"

definition reach_f64 :: "HexapodDimensions \<Rightarrow> Point3D \<Rightarrow> real" where
  "reach_f64 dims v = fl (planarDist_f64 v - coxa dims)"

definition p3_plane_f64 :: "HexapodDimensions \<Rightarrow> Point3D \<Rightarrow> real \<times> real" where
  "p3_plane_f64 dims v = (fl (coxa dims + reach_f64 dims v), height v)"

definition p3_leg_f64 :: "HexapodDimensions \<Rightarrow> Point3D \<Rightarrow> Point3D" where
  "p3_leg_f64 dims v =
     \<lparr>x = fl (fst (p3_plane_f64 dims v) * Math_cos_f64 (coxaAngle_f64 v)),
      y = fl (fst (p3_plane_f64 dims v) * Math_sin_f64 (coxaAngle_f64 v)),
      z = snd (p3_plane_f64 dims v)\<rparr>"

definition j3_local_f64 :: "HexapodDimensions \<Rightarrow> Point3D \<Rightarrow> Point3D \<Rightarrow> Point3D" where
  "j3_local_f64 dims v hipLocal =
     (let p3_body = rotateZ_f64 (p3_leg_f64 dims v) (mountAngle_f64 hipLocal)
      in \<lparr>x = fl (x p3_body + x hipLocal), y = fl (y p3_body + y hipLocal),
          z = fl (z p3_body + z hipLocal)\<rparr>)"

text \<open>\<^verbatim>\<open>joints.foot\<close> of the leg \<^verbatim>\<open>index\<close>.\<close>

definition foot_f64 :: "HexapodDimensions \<Rightarrow> BodyPose \<Rightarrow> nat \<Rightarrow> Point3D" where
  "foot_f64 dims pose index =
     (let footWorld = getFixedFootPoints_f64 dims ! index;
          hipLocal = getLocalBodyPoints dims ! index;
          v = vLeg_f64 pose footWorld hipLocal
      in toWorld_f64 pose (j3_local_f64 dims v hipLocal))"

section \<open>Rotations and the pose transforms\<close>

lemma sin_cos_sq: "sin t * sin t + cos t * cos t = (1::real)"
  using sin_cos_squared_add [of t] by (simp add: power2_eq_square)

lemma sc1: "(a * cos t - b * sin t) * cos t + (a * sin t + b * cos t) * sin t = (a::real)"
proof -
  have "(a * cos t - b * sin t) * cos t + (a * sin t + b * cos t) * sin t
        = a * (sin t * sin t + cos t * cos t)"
    by (simp only: algebra_simps)
  then show ?thesis by (simp only: sin_cos_sq mult_1_right)
qed

lemma sc2: "(a * sin t + b * cos t) * cos t - (a * cos t - b * sin t) * sin t = (b::real)"
proof -
  have "(a * sin t + b * cos t) * cos t - (a * cos t - b * sin t) * sin t
        = b * (sin t * sin t + cos t * cos t)"
    by (simp only: algebra_simps)
  then show ?thesis by (simp only: sin_cos_sq mult_1_right)
qed

lemma rotateX_inverse: "rotateX (rotateX p t) (- t) = p"
  using sc1 [of "y p" t "z p"] sc2 [of "y p" t "z p"]
  by (simp add: rotateX_def algebra_simps)

lemma rotateY_inverse: "rotateY (rotateY p t) (- t) = p"
  using sc1 [of "z p" t "x p"] sc2 [of "z p" t "x p"]
  by (simp add: rotateY_def algebra_simps)

lemma rotateZ_inverse: "rotateZ (rotateZ p t) (- t) = p"
  using sc1 [of "x p" t "y p"] sc2 [of "x p" t "y p"]
  by (simp add: rotateZ_def algebra_simps)

lemma rotateX_inverse': "rotateX (rotateX p (- t)) t = p"
  using rotateX_inverse [of p "- t"] by simp

lemma rotateY_inverse': "rotateY (rotateY p (- t)) t = p"
  using rotateY_inverse [of p "- t"] by simp

lemma rotateZ_inverse': "rotateZ (rotateZ p (- t)) t = p"
  using rotateZ_inverse [of p "- t"] by simp

lemma point_eta: "\<lparr>x = x p, y = y p, z = z p\<rparr> = (p::Point3D)"
  by simp

lemma fLocal_toWorld: "fLocal pose (toWorld pose p) = p"
  by (simp add: fLocal_def toWorld_def Let_def point_eta rotateX_inverse rotateY_inverse rotateZ_inverse)

lemma toWorld_fLocal: "toWorld pose (fLocal pose p) = p"
  by (simp add: fLocal_def toWorld_def Let_def rotateX_inverse' rotateY_inverse' rotateZ_inverse')

text \<open>
  C2. For every pose and every point, the forward transform (rotate about X by \<open>rx\<close>,
  then about Y by \<open>ry\<close>, then about Z by \<open>rz\<close>, then add the translation) and the
  inverse transform (subtract the translation, then rotate about Z by \<open>-rz\<close>, about Y by
  \<open>-ry\<close>, about X by \<open>-rx\<close>) undo each other, in either order.
\<close>

theorem pose_transforms_are_inverses:
  "fLocal pose (toWorld pose p) = p \<and> toWorld pose (fLocal pose p) = p"
  by (simp add: fLocal_toWorld toWorld_fLocal)

section \<open>The hip points\<close>

text \<open>
  C9. For every dimensions the geometry builder returns six local hip points, all with
  \<open>z = 0\<close>, in the order middle-right \<open>(middle, 0)\<close>, front-right \<open>(side, -front)\<close>,
  front-left \<open>(-side, -front)\<close>, middle-left \<open>(-middle, 0)\<close>, back-left
  \<open>(-side, front)\<close>, back-right \<open>(side, front)\<close>, and the points of legs 3, 4, 5 are the
  negations of the points of legs 0, 1, 2.
\<close>

theorem local_hip_points_layout:
  "length (getLocalBodyPoints dims) = 6 \<and>
   map z (getLocalBodyPoints dims) = [0, 0, 0, 0, 0, 0] \<and>
   map x (getLocalBodyPoints dims) =
     [middle dims, side dims, - side dims, - middle dims, - side dims, side dims] \<and>
   map y (getLocalBodyPoints dims) =
     [0, - front dims, - front dims, 0, front dims, front dims] \<and>
   drop 3 (getLocalBodyPoints dims) =
     map (\<lambda>p. \<lparr>x = - x p, y = - y p, z = - z p\<rparr>) (take 3 (getLocalBodyPoints dims))"
  by (simp add: getLocalBodyPoints_def)

section \<open>Polar coordinates\<close>

lemma sqrt_factor:
  assumes "a \<noteq> (0::real)"
  shows "sqrt (a * a + b * b) = \<bar>a\<bar> * sqrt (1 + (b / a)\<^sup>2)"
proof -
  have "a * a + b * b = a\<^sup>2 * (1 + (b / a)\<^sup>2)"
    using assms by (simp add: field_simps power2_eq_square)
  then show ?thesis
    by (simp only: real_sqrt_mult real_sqrt_abs)
qed

lemma sqrt_pos_aux: "0 < sqrt (1 + (u::real)\<^sup>2)"
  by (simp add: add_pos_nonneg)

lemma cos_arctan_scaled:
  assumes "a \<noteq> (0::real)"
  shows "sqrt (a * a + b * b) * cos (arctan (b / a)) = \<bar>a\<bar>"
  using sqrt_pos_aux [of "b / a"]
  by (simp add: sqrt_factor [OF assms] cos_arctan)

lemma sin_arctan_scaled:
  assumes "a \<noteq> (0::real)"
  shows "sqrt (a * a + b * b) * sin (arctan (b / a)) = \<bar>a\<bar> * (b / a)"
  using sqrt_pos_aux [of "b / a"]
  by (simp add: sqrt_factor [OF assms] sin_arctan)

lemma polar_cos: "sqrt (a * a + b * b) * cos (atan2 b a) = a"
proof -
  consider "0 < a" | "a < 0" | "a = 0" by linarith
  then show ?thesis
  proof cases
    case 1
    then show ?thesis using cos_arctan_scaled [of a b] by (simp add: atan2_def)
  next
    case 2
    then show ?thesis using cos_arctan_scaled [of a b] by (simp add: atan2_def)
  next
    case 3
    then show ?thesis by (simp add: atan2_def)
  qed
qed

lemma polar_sin: "sqrt (a * a + b * b) * sin (atan2 b a) = b"
proof -
  consider "0 < a" | "a < 0" | "a = 0" by linarith
  then show ?thesis
  proof cases
    case 1
    then show ?thesis using sin_arctan_scaled [of a b] by (simp add: atan2_def)
  next
    case 2
    then show ?thesis using sin_arctan_scaled [of a b] by (simp add: atan2_def)
  next
    case 3
    then show ?thesis by (simp add: atan2_def)
  qed
qed

section \<open>The foot of every leg stays on its fixed foot point\<close>

lemma length_getLocalBodyPoints: "length (getLocalBodyPoints dims) = 6"
  by (simp add: getLocalBodyPoints_def)

lemma length_getFixedFootPoints: "length (getFixedFootPoints dims) = 6"
  by (simp add: getFixedFootPoints_def length_getLocalBodyPoints)

lemma length_legs: "length (legs (solveHexapodIK dims pose)) = 6"
  by (simp add: solveHexapodIK_def Let_def length_getLocalBodyPoints)

lemma legs_nth:
  assumes "i < 6"
  shows "legs (solveHexapodIK dims pose) ! i =
         solveLeg dims pose (getLocalBodyPoints dims) (getFixedFootPoints dims)
           (toWorld pose (getLocalBodyPoints dims ! i)) i"
  using assms by (simp add: solveHexapodIK_def Let_def length_getLocalBodyPoints)

lemma p3_leg_eq: "p3_leg dims v = v"
  using polar_cos [of "x v" "y v"] polar_sin [of "x v" "y v"]
  by (simp add: p3_leg_def p3_plane_def reach_def height_def planarDist_def coxaAngle_rad_def)

lemma j3_local_eq: "j3_local dims (vLeg pose footWorld hipLocal) hipLocal = fLocal pose footWorld"
  by (simp add: j3_local_def Let_def p3_leg_eq vLeg_def rotateZ_inverse' vLocal_def)

lemma foot_solveLeg:
  "foot (joints (solveLeg dims pose localBodyPoints fixedFootPoints hipWorld index))
     = fixedFootPoints ! index"
  by (simp add: solveLeg_def Let_def j3_local_eq toWorld_fLocal)

lemma foot_legs_nth:
  assumes "i < 6"
  shows "foot (joints (legs (solveHexapodIK dims pose) ! i)) = getFixedFootPoints dims ! i"
  by (simp add: legs_nth [OF assms] foot_solveLeg)

text \<open>
  C1, as amended. In exact real arithmetic, for every dimensions and every pose, the
  foot positions of the six legs in the solver's output are the six fixed foot points,
  which depend on the dimensions alone.
\<close>

theorem foot_is_fixed_foot_point:
  "map (\<lambda>leg. foot (joints leg)) (legs (solveHexapodIK dims pose)) = getFixedFootPoints dims"
  by (rule nth_equalityI) (simp_all add: length_legs length_getFixedFootPoints foot_legs_nth)

section \<open>The fixed foot points\<close>

lemma dist3_origin: "dist3 origin p = sqrt (x p * x p + y p * y p + z p * z p)"
  by (simp add: dist3_def origin_def power2_eq_square)

lemma sqrt_cos_sin_scaled: "sqrt (cos t * r * (cos t * r) + sin t * r * (sin t * r)) = \<bar>r\<bar>"
proof -
  have "cos t * r * (cos t * r) + sin t * r * (sin t * r) = (sin t * sin t + cos t * cos t) * (r * r)"
    by (simp only: algebra_simps)
  then show ?thesis by (simp only: sin_cos_sq mult_1 real_sqrt_abs2)
qed

lemma dist3_fixedFootPoint:
  "dist3 origin (fixedFootPoint dims hip) = \<bar>sqrt (x hip * x hip + y hip * y hip) + legReach dims\<bar>"
  by (simp add: dist3_origin fixedFootPoint_def Let_def sqrt_cos_sin_scaled)

lemma atan2_scale:
  assumes "0 < k"
  shows "atan2 (k * b) (k * a) = atan2 b a"
  using assms by (simp add: atan2_def zero_less_mult_iff mult_less_0_iff zero_le_mult_iff)

lemma sqrt_sum_squares_pos: "a \<noteq> 0 \<or> b \<noteq> 0 \<Longrightarrow> 0 < sqrt (a * a + b * b)"
  by (metis add.commute not_real_square_gt_zero real_sqrt_gt_0_iff sum_squares_gt_zero_iff)

lemma atan2_polar:
  assumes "0 < r" "a \<noteq> 0 \<or> b \<noteq> 0"
  shows "atan2 (sin (atan2 b a) * r) (cos (atan2 b a) * r) = atan2 b a"
proof -
  let ?s = "sqrt (a * a + b * b)"
  have s: "0 < ?s" using assms(2) by (rule sqrt_sum_squares_pos)
  have s0: "?s \<noteq> 0" using s by (metis less_irrefl)
  have c: "cos (atan2 b a) = a / ?s"
    using polar_cos [of a b] s0 by (metis nonzero_mult_div_cancel_left)
  have d: "sin (atan2 b a) = b / ?s"
    using polar_sin [of a b] s0 by (metis nonzero_mult_div_cancel_left)
  have "atan2 (sin (atan2 b a) * r) (cos (atan2 b a) * r) = atan2 ((r / ?s) * b) ((r / ?s) * a)"
    by (simp add: c d mult.commute)
  also have "\<dots> = atan2 b a"
    using assms(1) s by (intro atan2_scale) simp
  finally show ?thesis .
qed

lemma less6_cases: "i < 6 \<Longrightarrow> i = 0 \<or> i = 1 \<or> i = 2 \<or> i = 3 \<or> i = 4 \<or> (i::nat) = 5"
  by arith

lemma getFixedFootPoints_nth:
  assumes "i < 6"
  shows "getFixedFootPoints dims ! i = fixedFootPoint dims (getLocalBodyPoints dims ! i)"
  using assms by (simp add: getFixedFootPoints_def length_getLocalBodyPoints)

lemma hip_in_plane:
  assumes "i < 6"
  shows "z (getLocalBodyPoints dims ! i) = 0"
  using less6_cases [OF assms] by (auto simp: getLocalBodyPoints_def)

lemma hip_off_center:
  assumes "positiveDims dims" "i < 6"
  shows "x (getLocalBodyPoints dims ! i) \<noteq> 0"
  using less6_cases [OF assms(2)] assms(1)
  by (auto simp: getLocalBodyPoints_def positiveDims_def)

lemma legReach_pos: "positiveDims dims \<Longrightarrow> 0 < legReach dims"
  by (simp add: legReach_def positiveDims_def add_pos_pos)

lemma dist3_origin_plane: "z p = 0 \<Longrightarrow> dist3 origin p = sqrt (x p * x p + y p * y p)"
  by (simp add: dist3_origin)

lemma fixedFootPoint_polar:
  assumes "z hip = 0"
  shows "fixedFootPoint dims hip =
           \<lparr>x = cos (mountAngle hip) * (dist3 origin hip + legReach dims),
            y = sin (mountAngle hip) * (dist3 origin hip + legReach dims),
            z = 0\<rparr>"
  by (simp add: fixedFootPoint_def Let_def mountAngle_def dist3_origin_plane [OF assms])

lemma fixedFootPoint_dist:
  assumes "z hip = 0" "0 < legReach dims"
  shows "dist3 origin (fixedFootPoint dims hip) = dist3 origin hip + legReach dims"
proof -
  have "0 \<le> sqrt (x hip * x hip + y hip * y hip)" by simp
  then have "0 \<le> sqrt (x hip * x hip + y hip * y hip) + legReach dims"
    using assms(2) by linarith
  then show ?thesis
    by (simp only: dist3_fixedFootPoint dist3_origin_plane [OF assms(1)] abs_of_nonneg)
qed

lemma fixedFootPoint_direction:
  assumes "x hip \<noteq> 0" "0 < legReach dims"
  shows "atan2 (y (fixedFootPoint dims hip)) (x (fixedFootPoint dims hip)) = mountAngle hip"
proof -
  have "0 \<le> sqrt (x hip * x hip + y hip * y hip)" by simp
  then have r: "0 < sqrt (x hip * x hip + y hip * y hip) + legReach dims"
    using assms(2) by linarith
  have nz: "x hip \<noteq> 0 \<or> y hip \<noteq> 0" using assms(1) by simp
  show ?thesis
    using atan2_polar [OF r nz]
    by (simp add: fixedFootPoint_def Let_def mountAngle_def)
qed

text \<open>
  C4. For positive dimensions and each leg \<open>i\<close>, the fixed foot point is the point at
  distance (distance from the body center to the local hip point) + coxa + femur +
  0.5 tibia from the body center in the direction of the mount angle
  \<open>atan2(hip.y, hip.x)\<close>, with \<open>z = 0\<close>; it is computed from the dimensions alone, and
  the foot of leg \<open>i\<close> is that point at every pose.
\<close>

theorem fixed_foot_point_position:
  assumes "positiveDims dims" and "i < 6"
  shows "getFixedFootPoints dims ! i =
           \<lparr>x = cos (mountAngle (getLocalBodyPoints dims ! i)) *
                  (dist3 origin (getLocalBodyPoints dims ! i)
                     + (coxa dims + femur dims + 0.5 * tibia dims)),
            y = sin (mountAngle (getLocalBodyPoints dims ! i)) *
                  (dist3 origin (getLocalBodyPoints dims ! i)
                     + (coxa dims + femur dims + 0.5 * tibia dims)),
            z = 0\<rparr> \<and>
         atan2 (y (getFixedFootPoints dims ! i)) (x (getFixedFootPoints dims ! i))
           = mountAngle (getLocalBodyPoints dims ! i) \<and>
         dist3 origin (getFixedFootPoints dims ! i)
           = dist3 origin (getLocalBodyPoints dims ! i)
               + (coxa dims + femur dims + 0.5 * tibia dims) \<and>
         (\<forall>pose. foot (joints (legs (solveHexapodIK dims pose) ! i)) = getFixedFootPoints dims ! i)"
proof -
  have l: "coxa dims + femur dims + 0.5 * tibia dims = legReach dims"
    by (simp add: legReach_def)
  note h = hip_in_plane [OF assms(2), of dims]
  note p = legReach_pos [OF assms(1)]
  note n = hip_off_center [OF assms]
  show ?thesis
    unfolding l getFixedFootPoints_nth [OF assms(2)]
    using fixedFootPoint_polar [OF h, of dims] fixedFootPoint_direction [OF n p]
      fixedFootPoint_dist [OF h p] foot_legs_nth [OF assms(2), of dims]
    by (simp add: getFixedFootPoints_nth [OF assms(2)])
qed

theorem fixed_foot_point_position_witness:
  "positiveDims DEFAULT_DIMENSIONS \<and> (1::nat) < 6 \<and>
   (getFixedFootPoints DEFAULT_DIMENSIONS ! 1 =
           \<lparr>x = cos (mountAngle (getLocalBodyPoints DEFAULT_DIMENSIONS ! 1)) *
                  (dist3 origin (getLocalBodyPoints DEFAULT_DIMENSIONS ! 1)
                     + (coxa DEFAULT_DIMENSIONS + femur DEFAULT_DIMENSIONS
                          + 0.5 * tibia DEFAULT_DIMENSIONS)),
            y = sin (mountAngle (getLocalBodyPoints DEFAULT_DIMENSIONS ! 1)) *
                  (dist3 origin (getLocalBodyPoints DEFAULT_DIMENSIONS ! 1)
                     + (coxa DEFAULT_DIMENSIONS + femur DEFAULT_DIMENSIONS
                          + 0.5 * tibia DEFAULT_DIMENSIONS)),
            z = 0\<rparr> \<and>
         atan2 (y (getFixedFootPoints DEFAULT_DIMENSIONS ! 1))
               (x (getFixedFootPoints DEFAULT_DIMENSIONS ! 1))
           = mountAngle (getLocalBodyPoints DEFAULT_DIMENSIONS ! 1) \<and>
         dist3 origin (getFixedFootPoints DEFAULT_DIMENSIONS ! 1)
           = dist3 origin (getLocalBodyPoints DEFAULT_DIMENSIONS ! 1)
               + (coxa DEFAULT_DIMENSIONS + femur DEFAULT_DIMENSIONS
                    + 0.5 * tibia DEFAULT_DIMENSIONS) \<and>
         (\<forall>pose. foot (joints (legs (solveHexapodIK DEFAULT_DIMENSIONS pose) ! 1))
                   = getFixedFootPoints DEFAULT_DIMENSIONS ! 1))"
proof -
  have a: "positiveDims DEFAULT_DIMENSIONS"
    by (simp add: positiveDims_def DEFAULT_DIMENSIONS_def)
  have b: "(1::nat) < 6" by simp
  show ?thesis
    by (rule conjI [OF a conjI [OF b fixed_foot_point_position [OF a b]]])
qed

lemma sqrt_double_square: "0 \<le> w \<Longrightarrow> sqrt (w * w + w * w) = sqrt 2 * w"
proof -
  assume w: "0 \<le> w"
  have "w * w + w * w = 2 * (w * w)" by simp
  then have "sqrt (w * w + w * w) = sqrt 2 * sqrt (w * w)"
    by (simp only: real_sqrt_mult)
  then show ?thesis using w by (simp only: real_sqrt_abs2 abs_of_nonneg)
qed

lemma fixed_foot_radius_nth:
  assumes "positiveDims dims" "i < 6"
  shows "dist3 origin (getFixedFootPoints dims ! i)
           = dist3 origin (getLocalBodyPoints dims ! i) + legReach dims"
  by (simp only: getFixedFootPoints_nth [OF assms(2)]
        fixedFootPoint_dist [OF hip_in_plane [OF assms(2)] legReach_pos [OF assms(1)]])

lemma hip_radii_equal_widths:
  assumes "0 < w" "front dims = w" "side dims = w" "middle dims = w"
  shows "dist3 origin (getLocalBodyPoints dims ! 0) = w"
    and "dist3 origin (getLocalBodyPoints dims ! 1) = sqrt 2 * w"
    and "dist3 origin (getLocalBodyPoints dims ! 2) = sqrt 2 * w"
    and "dist3 origin (getLocalBodyPoints dims ! 3) = w"
    and "dist3 origin (getLocalBodyPoints dims ! 4) = sqrt 2 * w"
    and "dist3 origin (getLocalBodyPoints dims ! 5) = sqrt 2 * w"
  using assms sqrt_double_square [of w]
  by (simp_all add: dist3_origin getLocalBodyPoints_def)

text \<open>
  C6, as amended. With the three widths equal to \<open>w\<close> and positive dimensions, the fixed
  foot points of the two middle legs (0 and 3) lie at distance \<open>w + legReach\<close> from the
  body center, and those of the four corner legs (1, 2, 4 and 5) at distance
  \<open>\<surd>2 w + legReach\<close>, where \<open>legReach = coxa + femur + 0.5 tibia\<close>: the radius is
  constant within each group, not across the six.
\<close>

theorem fixed_foot_radii_equal_widths:
  assumes "positiveDims dims" and "front dims = w" and "side dims = w" and "middle dims = w"
  shows "dist3 origin (getFixedFootPoints dims ! 0) = w + legReach dims \<and>
         dist3 origin (getFixedFootPoints dims ! 3) = w + legReach dims \<and>
         dist3 origin (getFixedFootPoints dims ! 1) = sqrt 2 * w + legReach dims \<and>
         dist3 origin (getFixedFootPoints dims ! 2) = sqrt 2 * w + legReach dims \<and>
         dist3 origin (getFixedFootPoints dims ! 4) = sqrt 2 * w + legReach dims \<and>
         dist3 origin (getFixedFootPoints dims ! 5) = sqrt 2 * w + legReach dims"
proof -
  have w: "0 < w" using assms(1,2) by (simp add: positiveDims_def)
  note r = hip_radii_equal_widths [OF w assms(2,3,4)]
  note q = fixed_foot_radius_nth [OF assms(1)]
  show ?thesis
    using r q [of 0] q [of 1] q [of 2] q [of 3] q [of 4] q [of 5] by simp
qed

lemma sqrt2_lower: "141 / 100 < sqrt 2"
  by (rule real_less_rsqrt) (simp add: power2_eq_square)

text \<open>
  At the default dimensions (all widths 100) the foot of corner leg 1 is more than 41
  farther from the body center than the foot of middle leg 0: the six fixed foot points
  are not on one circle.
\<close>

theorem fixed_foot_radii_counterexample:
  "41 < dist3 origin (getFixedFootPoints DEFAULT_DIMENSIONS ! 1)
        - dist3 origin (getFixedFootPoints DEFAULT_DIMENSIONS ! 0)"
proof -
  have a: "positiveDims DEFAULT_DIMENSIONS"
    by (simp add: positiveDims_def DEFAULT_DIMENSIONS_def)
  have w: "(0::real) < 100" by simp
  have f: "front DEFAULT_DIMENSIONS = 100" "side DEFAULT_DIMENSIONS = 100"
    "middle DEFAULT_DIMENSIONS = 100"
    by (simp_all add: DEFAULT_DIMENSIONS_def)
  note r = hip_radii_equal_widths(1,2) [OF w f]
  have "dist3 origin (getFixedFootPoints DEFAULT_DIMENSIONS ! 1)
        - dist3 origin (getFixedFootPoints DEFAULT_DIMENSIONS ! 0) = sqrt 2 * 100 - 100"
    using r fixed_foot_radius_nth [OF a, of 0] fixed_foot_radius_nth [OF a, of 1] by simp
  then show ?thesis using sqrt2_lower by simp
qed

theorem fixed_foot_radii_equal_widths_witness:
  "positiveDims DEFAULT_DIMENSIONS \<and> front DEFAULT_DIMENSIONS = 100 \<and>
   side DEFAULT_DIMENSIONS = 100 \<and> middle DEFAULT_DIMENSIONS = 100 \<and>
   dist3 origin (getFixedFootPoints DEFAULT_DIMENSIONS ! 0) = 310 \<and>
   dist3 origin (getFixedFootPoints DEFAULT_DIMENSIONS ! 3) = 310 \<and>
   dist3 origin (getFixedFootPoints DEFAULT_DIMENSIONS ! 1) = sqrt 2 * 100 + 210 \<and>
   dist3 origin (getFixedFootPoints DEFAULT_DIMENSIONS ! 2) = sqrt 2 * 100 + 210 \<and>
   dist3 origin (getFixedFootPoints DEFAULT_DIMENSIONS ! 4) = sqrt 2 * 100 + 210 \<and>
   dist3 origin (getFixedFootPoints DEFAULT_DIMENSIONS ! 5) = sqrt 2 * 100 + 210"
proof -
  have a: "positiveDims DEFAULT_DIMENSIONS"
    by (simp add: positiveDims_def DEFAULT_DIMENSIONS_def)
  have f: "front DEFAULT_DIMENSIONS = 100" "side DEFAULT_DIMENSIONS = 100"
    "middle DEFAULT_DIMENSIONS = 100"
    by (simp_all add: DEFAULT_DIMENSIONS_def)
  have l: "legReach DEFAULT_DIMENSIONS = 210"
    by (simp add: legReach_def DEFAULT_DIMENSIONS_def)
  show ?thesis
    using a f fixed_foot_radii_equal_widths [OF a f] by (simp add: l)
qed

section \<open>The pose transform preserves distances\<close>

lemma rot_sq:
  "(a * cos t - b * sin t - (a' * cos t - b' * sin t))\<^sup>2
     + (a * sin t + b * cos t - (a' * sin t + b' * cos t))\<^sup>2
   = (a - a')\<^sup>2 + (b - b')\<^sup>2" for a :: real
  using sin_cos_squared_add [of t] by algebra

lemma dist3_rotateX: "dist3 (rotateX p t) (rotateX q t) = dist3 p q"
  using rot_sq [of "y p" t "z p" "y q" "z q"]
  by (simp add: dist3_def rotateX_def add.assoc)

lemma dist3_rotateY: "dist3 (rotateY p t) (rotateY q t) = dist3 p q"
  using rot_sq [of "z p" t "x p" "z q" "x q"]
  by (simp add: dist3_def rotateY_def algebra_simps)

lemma dist3_rotateZ: "dist3 (rotateZ p t) (rotateZ q t) = dist3 p q"
  using rot_sq [of "x p" t "y p" "x q" "y q"]
  by (simp add: dist3_def rotateZ_def)

lemma dist3_toWorld: "dist3 (toWorld pose p) (toWorld pose q) = dist3 p q"
proof -
  have "dist3 (toWorld pose p) (toWorld pose q)
        = dist3 (rotateZ (rotateY (rotateX p (toRad (rx pose))) (toRad (ry pose))) (toRad (rz pose)))
                (rotateZ (rotateY (rotateX q (toRad (rx pose))) (toRad (ry pose))) (toRad (rz pose)))"
    by (simp add: toWorld_def Let_def dist3_def)
  then show ?thesis
    by (simp only: dist3_rotateZ dist3_rotateY dist3_rotateX)
qed

lemma dist3_shift:
  "dist3 \<lparr>x = x p + x h, y = y p + y h, z = z p + z h\<rparr>
         \<lparr>x = x q + x h, y = y q + y h, z = z q + z h\<rparr> = dist3 p q"
  by (simp add: dist3_def)

lemma dist3_shift_origin:
  "dist3 h \<lparr>x = x q + x h, y = y q + y h, z = z q + z h\<rparr> = dist3 origin q"
  by (simp add: dist3_def origin_def power2_eq_square)

lemma dist3_origin_rotateZ: "dist3 origin (rotateZ p t) = dist3 origin p"
proof -
  have "rotateZ origin t = origin" by (simp add: rotateZ_def origin_def)
  then show ?thesis using dist3_rotateZ [of origin t p] by simp
qed

section \<open>Segment lengths\<close>

lemma sqrt_scaled_cos_sin: "sqrt ((r * cos t)\<^sup>2 + (r * sin t)\<^sup>2) = \<bar>r\<bar>"
proof -
  have "(r * cos t)\<^sup>2 + (r * sin t)\<^sup>2 = r\<^sup>2 * ((sin t)\<^sup>2 + (cos t)\<^sup>2)"
    by (simp only: power_mult_distrib distrib_left add.commute)
  then show ?thesis by (simp only: sin_cos_squared_add mult_1_right real_sqrt_abs)
qed

lemma dist3_origin_p1_leg: "dist3 origin (p1_leg dims v) = \<bar>coxa dims\<bar>"
  using sqrt_scaled_cos_sin [of "coxa dims" "coxaAngle_rad v"]
  by (simp add: dist3_def origin_def p1_leg_def)

lemma coxa_segment_local: "dist3 hipLocal (j1_local dims v hipLocal) = \<bar>coxa dims\<bar>"
  by (simp only: j1_local_def Let_def dist3_shift_origin dist3_origin_rotateZ dist3_origin_p1_leg)

lemma dist3_p1_p2: "dist3 (p1_leg dims v) (p2_leg dims v fa) = \<bar>femur dims\<bar>"
proof -
  let ?ca = "coxaAngle_rad v"
  let ?h = "femur dims * cos fa"
  have "(coxa dims * cos ?ca - (coxa dims + ?h) * cos ?ca)\<^sup>2
        + (coxa dims * sin ?ca - (coxa dims + ?h) * sin ?ca)\<^sup>2
        + (femur dims * sin fa)\<^sup>2 = (femur dims)\<^sup>2"
    using sin_cos_squared_add [of ?ca] sin_cos_squared_add [of fa] by algebra
  then show ?thesis
    by (simp add: dist3_def p1_leg_def p2_leg_def p2_plane_def fem_h_def fem_v_def)
qed

lemma femur_segment_local:
  "dist3 (j1_local dims v hipLocal) (j2_local dims v fa hipLocal) = \<bar>femur dims\<bar>"
  by (simp only: j1_local_def j2_local_def Let_def dist3_shift dist3_rotateZ dist3_p1_p2)

lemma coxa_segment:
  assumes "i < 6"
  shows "dist3 (bodyContact (joints (legs (solveHexapodIK dims pose) ! i)))
               (Joints.coxa (joints (legs (solveHexapodIK dims pose) ! i))) = \<bar>coxa dims\<bar>"
  by (simp add: legs_nth [OF assms] solveLeg_def Let_def dist3_toWorld coxa_segment_local)

lemma femur_segment:
  assumes "i < 6" "Joints.femur (joints (legs (solveHexapodIK dims pose) ! i)) = Some q"
  shows "dist3 (Joints.coxa (joints (legs (solveHexapodIK dims pose) ! i))) q = \<bar>femur dims\<bar>"
  using assms(2)
  by (auto simp add: legs_nth [OF assms(1)] solveLeg_def Let_def dist3_toWorld femur_segment_local)

lemma femur_joint_defined:
  assumes "i < 6"
  shows "Joints.femur (joints (legs (solveHexapodIK dims pose) ! i)) = None
         \<longleftrightarrow> femurAngle (legs (solveHexapodIK dims pose) ! i) = None"
  by (simp add: legs_nth [OF assms] solveLeg_def Let_def)

section \<open>When an angle is NaN\<close>

lemma clamp_Fin:
  "Math_acos (Math_max (Fin (- 1)) (Math_min (Fin 1) (Fin q))) = Some (arccos (max (- 1) (min 1 q)))"
  by simp

lemma clamp_NaN: "Math_acos (Math_max (Fin (- 1)) (Math_min (Fin 1) NaN)) = None"
  by simp

lemma clamp_PosInf: "Math_acos (Math_max (Fin (- 1)) (Math_min (Fin 1) PosInf)) = Some (arccos 1)"
  by simp

lemma clamp_NegInf: "Math_acos (Math_max (Fin (- 1)) (Math_min (Fin 1) NegInf)) = Some (arccos (- 1))"
  by simp

lemma gammaTri_Some:
  assumes "femur dims \<noteq> 0" "tibia dims \<noteq> 0"
  shows "gammaTri dims v =
           Some (arccos (max (- 1) (min 1
             ((femur dims * femur dims + tibia dims * tibia dims - c dims v * c dims v)
                / (2 * femur dims * tibia dims)))))"
  using assms by (simp add: gammaTri_def clampedCosGamma_def cosGamma_def js_div_def)

lemma betaTri_Some:
  assumes "femur dims \<noteq> 0" "c dims v \<noteq> 0"
  shows "betaTri dims v =
           Some (arccos (max (- 1) (min 1
             ((femur dims * femur dims + c dims v * c dims v - tibia dims * tibia dims)
                / (2 * femur dims * c dims v)))))"
  using assms by (simp add: betaTri_def clampedCosBeta_def cosBeta_def js_div_def)

lemma betaTri_None_iff:
  "betaTri dims v = None \<longleftrightarrow>
     (femur dims = 0 \<or> c dims v = 0) \<and> femur dims * femur dims + c dims v * c dims v = tibia dims * tibia dims"
  by (auto simp add: betaTri_def clampedCosBeta_def cosBeta_def js_div_def)

lemma femurAngle_None_iff:
  assumes "positiveDims dims" "i < 6"
  shows "femurAngle (legs (solveHexapodIK dims pose) ! i) = None \<longleftrightarrow>
           c dims (vLeg pose (getFixedFootPoints dims ! i) (getLocalBodyPoints dims ! i)) = 0
           \<and> femur dims = tibia dims"
proof -
  have f: "0 < femur dims" "0 < tibia dims" using assms(1) by (simp_all add: positiveDims_def)
  have sq: "femur dims * femur dims = tibia dims * tibia dims \<longleftrightarrow> femur dims = tibia dims"
    using f power2_eq_iff_nonneg [of "femur dims" "tibia dims"] by (simp add: power2_eq_square)
  show ?thesis
    using f sq
    by (auto simp add: legs_nth [OF assms(2)] solveLeg_def Let_def femurAngle_rad_def betaTri_None_iff)
qed

lemma tibiaAngle_Some:
  assumes "positiveDims dims" "i < 6"
  shows "tibiaAngle (legs (solveHexapodIK dims pose) ! i) =
           Some (toDeg (arccos (max (- 1) (min 1
             ((femur dims * femur dims + tibia dims * tibia dims
                 - c dims (vLeg pose (getFixedFootPoints dims ! i) (getLocalBodyPoints dims ! i))
                   * c dims (vLeg pose (getFixedFootPoints dims ! i) (getLocalBodyPoints dims ! i)))
                / (2 * femur dims * tibia dims))))))"
proof -
  have f: "femur dims \<noteq> 0" "tibia dims \<noteq> 0" using assms(1) by (simp_all add: positiveDims_def)
  show ?thesis
    by (simp add: legs_nth [OF assms(2)] solveLeg_def Let_def gammaTri_Some [OF f])
qed

lemma sqrt_10000: "sqrt 10000 = 100"
  using real_sqrt_abs2 [of 100] by simp

lemma sqrt_2500: "sqrt 2500 = 50"
  using real_sqrt_abs2 [of 50] by simp

lemma nan_input_vLeg:
  "vLeg \<lparr>tx = 90, ty = 0, tz = 0, rx = 0, ry = 0, rz = 0\<rparr>
     (getFixedFootPoints
        \<lparr>front = 100, side = 100, middle = 100, coxa = 50, femur = 60, tibia = 60\<rparr> ! 0)
     (getLocalBodyPoints
        \<lparr>front = 100, side = 100, middle = 100, coxa = 50, femur = 60, tibia = 60\<rparr> ! 0)
   = \<lparr>x = 50, y = 0, z = 0\<rparr>"
  by (simp add: vLeg_def vLocal_def fLocal_def getFixedFootPoints_def getLocalBodyPoints_def
        fixedFootPoint_def Let_def legReach_def mountAngle_def atan2_def toRad_def
        rotateX_def rotateY_def rotateZ_def sqrt_10000)

lemma nan_input_c:
  "c \<lparr>front = 100, side = 100, middle = 100, coxa = 50, femur = 60, tibia = 60\<rparr>
     \<lparr>x = 50, y = 0, z = 0\<rparr> = 0"
  by (simp add: c_def reach_def height_def planarDist_def sqrt_2500)

lemma nan_input_cosBeta:
  "cosBeta \<lparr>front = 100, side = 100, middle = 100, coxa = 50, femur = 60, tibia = 60\<rparr>
     \<lparr>x = 50, y = 0, z = 0\<rparr> = NaN"
  by (simp add: cosBeta_def nan_input_c js_div_def)

text \<open>
  C3 says that the femur angle and the tibia angle are numbers, never NaN, for all
  positive dimensions and all poses. The tibia angle is (\<open>tibiaAngle_Some\<close>), and the
  femur angle is unless \<open>c = 0\<close> and \<open>femur = tibia\<close> (\<open>femurAngle_None_iff\<close>): then
  the quotient \<open>cosBeta\<close> is \<open>0 / 0\<close>, the clamp keeps the NaN and so does the
  inverse cosine. With widths 100, coxa 50, femur 60, tibia 60 and the body moved by
  \<open>tx = 90\<close>, the femur pivot of leg 0 is on its foot and the femur angle is NaN.
\<close>

theorem femurAngle_NaN:
  "femurAngle (legs (solveHexapodIK
      \<lparr>front = 100, side = 100, middle = 100, coxa = 50, femur = 60, tibia = 60\<rparr>
      \<lparr>tx = 90, ty = 0, tz = 0, rx = 0, ry = 0, rz = 0\<rparr>) ! 0) = None"
  by (simp add: legs_nth solveLeg_def Let_def nan_input_vLeg femurAngle_rad_def betaTri_def
        clampedCosBeta_def nan_input_cosBeta)

text \<open>
  C10 says that the distance from the body contact to the coxa joint is the coxa length
  and the distance from the coxa joint to the femur joint is the femur length, for all
  positive dimensions and all poses. The first holds (\<open>coxa_segment\<close>), and the second
  holds whenever the femur angle is a number (\<open>femur_segment\<close>). At the input above the
  femur angle is NaN, and so is every coordinate of the femur joint of leg 0.
\<close>

theorem femur_joint_NaN:
  "Joints.femur (joints (legs (solveHexapodIK
      \<lparr>front = 100, side = 100, middle = 100, coxa = 50, femur = 60, tibia = 60\<rparr>
      \<lparr>tx = 90, ty = 0, tz = 0, rx = 0, ry = 0, rz = 0\<rparr>) ! 0)) = None"
  by (simp add: legs_nth solveLeg_def Let_def nan_input_vLeg femurAngle_rad_def betaTri_def
        clampedCosBeta_def nan_input_cosBeta)

section \<open>Poses that only change the height\<close>

lemma fLocal_heightPose: "fLocal (heightPose t) p = \<lparr>x = x p, y = y p, z = z p - t\<rparr>"
  by (simp add: fLocal_def heightPose_def toRad_def rotateX_def rotateY_def rotateZ_def)

lemma vLocal_heightPose:
  assumes "z hip = 0"
  shows "vLocal (heightPose t) (fixedFootPoint dims hip) hip
         = \<lparr>x = cos (mountAngle hip) * legReach dims, y = sin (mountAngle hip) * legReach dims, z = - t\<rparr>"
proof -
  have a: "cos (atan2 (y hip) (x hip)) * sqrt (x hip * x hip + y hip * y hip) = x hip"
    using polar_cos [of "x hip" "y hip"] by (simp add: mult.commute)
  have b: "sin (atan2 (y hip) (x hip)) * sqrt (x hip * x hip + y hip * y hip) = y hip"
    using polar_sin [of "x hip" "y hip"] by (simp add: mult.commute)
  show ?thesis
    using assms a b
    by (simp add: vLocal_def fLocal_heightPose fixedFootPoint_def Let_def mountAngle_def distrib_left)
qed

lemma vLeg_heightPose:
  assumes "z hip = 0"
  shows "vLeg (heightPose t) (fixedFootPoint dims hip) hip = \<lparr>x = legReach dims, y = 0, z = - t\<rparr>"
proof -
  let ?m = "mountAngle hip"
  let ?L = "legReach dims"
  have a: "cos ?m * ?L * cos ?m + sin ?m * ?L * sin ?m = ?L"
  proof -
    have "cos ?m * ?L * cos ?m + sin ?m * ?L * sin ?m = ?L * (sin ?m * sin ?m + cos ?m * cos ?m)"
      by (simp only: algebra_simps)
    then show ?thesis by (simp only: sin_cos_sq mult_1_right)
  qed
  have b: "sin ?m * ?L * cos ?m - cos ?m * ?L * sin ?m = 0"
    by (simp only: algebra_simps)
  show ?thesis
    using a b by (simp add: vLeg_def vLocal_heightPose [OF assms] rotateZ_def)
qed

lemma planar_height_only:
  assumes "positiveDims dims"
  shows "planarDist \<lparr>x = legReach dims, y = 0, z = - t\<rparr> = legReach dims"
    and "reach dims \<lparr>x = legReach dims, y = 0, z = - t\<rparr> = femur dims + tibia dims * 0.5"
    and "height \<lparr>x = legReach dims, y = 0, z = - t\<rparr> = - t"
    and "c dims \<lparr>x = legReach dims, y = 0, z = - t\<rparr>
           = sqrt ((femur dims + tibia dims * 0.5) * (femur dims + tibia dims * 0.5) + t * t)"
proof -
  have L: "0 < legReach dims" using assms by (rule legReach_pos)
  show p: "planarDist \<lparr>x = legReach dims, y = 0, z = - t\<rparr> = legReach dims"
    using L by (simp add: planarDist_def)
  show r: "reach dims \<lparr>x = legReach dims, y = 0, z = - t\<rparr> = femur dims + tibia dims * 0.5"
    by (simp add: reach_def p) (simp add: legReach_def)
  show h: "height \<lparr>x = legReach dims, y = 0, z = - t\<rparr> = - t"
    by (simp add: height_def)
  show "c dims \<lparr>x = legReach dims, y = 0, z = - t\<rparr>
           = sqrt ((femur dims + tibia dims * 0.5) * (femur dims + tibia dims * 0.5) + t * t)"
    by (simp add: c_def r h)
qed

lemma sqrt_ge_first: "0 \<le> r \<Longrightarrow> r \<le> sqrt (r * r + t * t)"
proof -
  assume r: "0 \<le> r"
  have "sqrt (r * r) \<le> sqrt (r * r + t * t)" by (rule real_sqrt_le_mono) simp
  then show ?thesis using r by (simp only: real_sqrt_abs2 abs_of_nonneg)
qed

lemma c_height_only_lower:
  assumes "positiveDims dims"
  shows "femur dims + tibia dims * 0.5 \<le> c dims \<lparr>x = legReach dims, y = 0, z = - t\<rparr>"
    and "0 < c dims \<lparr>x = legReach dims, y = 0, z = - t\<rparr>"
proof -
  have r: "0 < femur dims + tibia dims * 0.5"
    using assms by (simp add: positiveDims_def add_pos_pos)
  show a: "femur dims + tibia dims * 0.5 \<le> c dims \<lparr>x = legReach dims, y = 0, z = - t\<rparr>"
    using sqrt_ge_first [of "femur dims + tibia dims * 0.5" t] r
    by (simp only: planar_height_only(4) [OF assms] less_imp_le)
  show "0 < c dims \<lparr>x = legReach dims, y = 0, z = - t\<rparr>"
    using a r by linarith
qed

lemma femurAngle_rad_height_only:
  assumes "positiveDims dims"
  shows "femurAngle_rad dims \<lparr>x = legReach dims, y = 0, z = - t\<rparr> =
           Some (arctan (- t / (femur dims + tibia dims * 0.5))
                 + arccos (max (- 1) (min 1
                     ((femur dims * femur dims
                        + c dims \<lparr>x = legReach dims, y = 0, z = - t\<rparr>
                          * c dims \<lparr>x = legReach dims, y = 0, z = - t\<rparr>
                        - tibia dims * tibia dims)
                      / (2 * femur dims * c dims \<lparr>x = legReach dims, y = 0, z = - t\<rparr>)))))"
proof -
  have r: "0 < femur dims + tibia dims * 0.5"
    using assms by (simp add: positiveDims_def add_pos_pos)
  have f: "femur dims \<noteq> 0" using assms by (simp add: positiveDims_def)
  have cn: "c dims \<lparr>x = legReach dims, y = 0, z = - t\<rparr> \<noteq> 0"
    using c_height_only_lower(2) [OF assms, of t] by (metis less_irrefl)
  have a: "alphaTri dims \<lparr>x = legReach dims, y = 0, z = - t\<rparr>
           = arctan (- t / (femur dims + tibia dims * 0.5))"
    using r by (simp add: alphaTri_def planar_height_only(2,3) [OF assms] atan2_def)
  show ?thesis
    by (simp only: femurAngle_rad_def betaTri_Some [OF f cn] a option.map)
qed

lemma cos_beta_mono:
  fixes f tb c1 c2 :: real
  assumes "0 < f" "0 < c1" "c1 \<le> c2" "f * f - tb * tb \<le> c1 * c2"
  shows "(f * f + c1 * c1 - tb * tb) / (2 * f * c1) \<le> (f * f + c2 * c2 - tb * tb) / (2 * f * c2)"
proof -
  have c2: "0 < c2" using assms(2,3) by linarith
  have "0 \<le> (c1 * c2 - (f * f - tb * tb)) * (c2 - c1)"
    using assms(3,4) by (intro mult_nonneg_nonneg) simp_all
  then have k: "(f * f + c1 * c1 - tb * tb) * c2 \<le> (f * f + c2 * c2 - tb * tb) * c1"
    by (simp add: algebra_simps)
  have "(f * f + c1 * c1 - tb * tb) / c1 \<le> (f * f + c2 * c2 - tb * tb) / c2"
    using k assms(2) c2 by (simp add: field_simps)
  then have "(f * f + c1 * c1 - tb * tb) / c1 / (2 * f) \<le> (f * f + c2 * c2 - tb * tb) / c2 / (2 * f)"
    using assms(1) by (intro divide_right_mono) simp_all
  then show ?thesis by (simp add: mult.commute mult.left_commute)
qed

lemma clamp_mono: "u \<le> w \<Longrightarrow> max (- 1) (min 1 u) \<le> max (- 1) (min 1 (w::real))"
  by (simp add: max_def min_def)

lemma arccos_clamp_antimono:
  assumes "u \<le> (w::real)"
  shows "arccos (max (- 1) (min 1 w)) \<le> arccos (max (- 1) (min 1 u))"
  by (rule arccos_le_arccos) (use assms in \<open>simp_all add: max_def min_def\<close>)

lemma c_height_only_mono:
  assumes "positiveDims dims" "0 \<le> t1" "t1 \<le> t2"
  shows "c dims \<lparr>x = legReach dims, y = 0, z = - t1\<rparr> \<le> c dims \<lparr>x = legReach dims, y = 0, z = - t2\<rparr>"
proof -
  have "t1 * t1 \<le> t2 * t2" using assms(2,3) by (intro mult_mono) simp_all
  then show ?thesis
    by (simp only: planar_height_only(4) [OF assms(1)] real_sqrt_le_iff add_le_cancel_left)
qed

lemma femurAngle_rad_decreasing:
  assumes "positiveDims dims" "0 \<le> t1" "t1 < t2"
  shows "\<exists>a1 a2. femurAngle_rad dims \<lparr>x = legReach dims, y = 0, z = - t1\<rparr> = Some a1
               \<and> femurAngle_rad dims \<lparr>x = legReach dims, y = 0, z = - t2\<rparr> = Some a2
               \<and> a2 < a1"
proof -
  let ?r = "femur dims + tibia dims * 0.5"
  let ?c1 = "c dims \<lparr>x = legReach dims, y = 0, z = - t1\<rparr>"
  let ?c2 = "c dims \<lparr>x = legReach dims, y = 0, z = - t2\<rparr>"
  let ?q1 = "(femur dims * femur dims + ?c1 * ?c1 - tibia dims * tibia dims) / (2 * femur dims * ?c1)"
  let ?q2 = "(femur dims * femur dims + ?c2 * ?c2 - tibia dims * tibia dims) / (2 * femur dims * ?c2)"
  have f: "0 < femur dims" and tb: "0 < tibia dims"
    using assms(1) by (simp_all add: positiveDims_def)
  have r: "0 < ?r" using f tb by (simp add: add_pos_pos)
  have fr: "femur dims < ?r" using tb by simp
  note l1 = c_height_only_lower [OF assms(1), of t1]
  note l2 = c_height_only_lower [OF assms(1), of t2]
  have m: "?c1 \<le> ?c2"
    using assms(2,3) by (intro c_height_only_mono [OF assms(1)]) simp_all
  have "femur dims * femur dims \<le> ?r * ?r"
    using f fr by (intro mult_mono) simp_all
  also have "?r * ?r \<le> ?c1 * ?c2"
    using l1(1) l2(1) r by (intro mult_mono) simp_all
  finally have k: "femur dims * femur dims - tibia dims * tibia dims \<le> ?c1 * ?c2"
    using zero_le_square [of "tibia dims"] by linarith
  have q: "?q1 \<le> ?q2" by (rule cos_beta_mono [OF f l1(2) m k])
  have b: "arccos (max (- 1) (min 1 ?q2)) \<le> arccos (max (- 1) (min 1 ?q1))"
    by (rule arccos_clamp_antimono [OF q])
  have "- t2 / ?r < - t1 / ?r"
    using assms(3) r by (simp add: divide_strict_right_mono)
  then have a: "arctan (- t2 / ?r) < arctan (- t1 / ?r)"
    by (simp only: arctan_less_iff)
  show ?thesis
    using a b by (simp only: femurAngle_rad_height_only [OF assms(1)]) auto
qed

lemma DEFAULT_POSE_heightPose: "DEFAULT_POSE = heightPose 80"
  by (simp add: DEFAULT_POSE_def heightPose_def)

lemma positiveDims_DEFAULT: "positiveDims DEFAULT_DIMENSIONS"
  by (simp add: positiveDims_def DEFAULT_DIMENSIONS_def)

lemma leg_vLeg_heightPose:
  assumes "i < 6"
  shows "vLeg (heightPose t) (getFixedFootPoints dims ! i) (getLocalBodyPoints dims ! i)
         = \<lparr>x = legReach dims, y = 0, z = - t\<rparr>"
  by (simp only: getFixedFootPoints_nth [OF assms] vLeg_heightPose [OF hip_in_plane [OF assms]])

lemma femurAngle_heightPose:
  assumes "i < 6"
  shows "femurAngle (legs (solveHexapodIK dims (heightPose t)) ! i)
         = map_option toDeg (femurAngle_rad dims \<lparr>x = legReach dims, y = 0, z = - t\<rparr>)"
  by (simp add: legs_nth [OF assms] solveLeg_def Let_def leg_vLeg_heightPose [OF assms])

lemma toDeg_less: "a < b \<Longrightarrow> toDeg a < toDeg b"
  by (simp add: toDeg_def divide_strict_right_mono)

lemma toDeg_bounds: "- pi \<le> a \<Longrightarrow> a \<le> pi \<Longrightarrow> - 180 \<le> toDeg a \<and> toDeg a \<le> 180"
  by (simp add: toDeg_def field_simps)

lemma femurAngle_decreasing:
  assumes "positiveDims dims" "i < 6" "0 \<le> t1" "t1 < t2"
  shows "\<exists>a1 a2. femurAngle (legs (solveHexapodIK dims (heightPose t1)) ! i) = Some a1
               \<and> femurAngle (legs (solveHexapodIK dims (heightPose t2)) ! i) = Some a2
               \<and> a2 < a1"
proof -
  obtain b1 b2 where b:
    "femurAngle_rad dims \<lparr>x = legReach dims, y = 0, z = - t1\<rparr> = Some b1"
    "femurAngle_rad dims \<lparr>x = legReach dims, y = 0, z = - t2\<rparr> = Some b2"
    "b2 < b1"
    using femurAngle_rad_decreasing [OF assms(1,3,4)] by blast
  show ?thesis
    using b(3) by (simp add: femurAngle_heightPose [OF assms(2)] b(1,2) toDeg_less)
qed

text \<open>
  C7. For positive dimensions and a fixed leg, with the pose the identity except \<open>tz\<close>,
  the deviation of the femur angle from its value at the identity pose grows strictly
  with \<open>tz\<close>: for \<open>0 \<le> t1 < t2\<close> it is smaller at \<open>tz = t1\<close> than at \<open>tz = t2\<close>. This
  holds for every such \<open>t2\<close>, in particular up to \<open>coxa + femur + tibia\<close>.
\<close>

theorem femur_deviation_increases_with_height:
  assumes "positiveDims dims" and "i < 6" and "0 \<le> t1" and "t1 < t2"
  shows "\<exists>a0 a1 a2.
           femurAngle (legs (solveHexapodIK dims (heightPose 0)) ! i) = Some a0 \<and>
           femurAngle (legs (solveHexapodIK dims (heightPose t1)) ! i) = Some a1 \<and>
           femurAngle (legs (solveHexapodIK dims (heightPose t2)) ! i) = Some a2 \<and>
           \<bar>a1 - a0\<bar> < \<bar>a2 - a0\<bar>"
proof -
  obtain a1 a2 where a:
    "femurAngle (legs (solveHexapodIK dims (heightPose t1)) ! i) = Some a1"
    "femurAngle (legs (solveHexapodIK dims (heightPose t2)) ! i) = Some a2"
    "a2 < a1"
    using femurAngle_decreasing [OF assms] by blast
  show ?thesis
  proof (cases "t1 = 0")
    case True
    then show ?thesis using a by auto
  next
    case False
    then have "0 < t1" using assms(3) by simp
    then obtain a0 a1' where b:
      "femurAngle (legs (solveHexapodIK dims (heightPose 0)) ! i) = Some a0"
      "femurAngle (legs (solveHexapodIK dims (heightPose t1)) ! i) = Some a1'"
      "a1' < a0"
      using femurAngle_decreasing [OF assms(1,2), of 0 t1] by auto
    then have "a1 < a0" using a(1) by simp
    then show ?thesis using a b(1) by auto
  qed
qed

theorem femur_deviation_increases_with_height_witness:
  "positiveDims DEFAULT_DIMENSIONS \<and> (0::nat) < 6 \<and> (0::real) \<le> 40 \<and> (40::real) < 80 \<and>
   (\<exists>a0 a1 a2.
      femurAngle (legs (solveHexapodIK DEFAULT_DIMENSIONS (heightPose 0)) ! 0) = Some a0 \<and>
      femurAngle (legs (solveHexapodIK DEFAULT_DIMENSIONS (heightPose 40)) ! 0) = Some a1 \<and>
      femurAngle (legs (solveHexapodIK DEFAULT_DIMENSIONS (heightPose 80)) ! 0) = Some a2 \<and>
      \<bar>a1 - a0\<bar> < \<bar>a2 - a0\<bar>)"
proof -
  have a: "positiveDims DEFAULT_DIMENSIONS"
    by (simp add: positiveDims_def DEFAULT_DIMENSIONS_def)
  have b: "(0::nat) < 6" by simp
  have c1: "(0::real) \<le> 40" by simp
  have c2: "(40::real) < 80" by simp
  show ?thesis
    by (rule conjI [OF a conjI [OF b conjI [OF c1 conjI [OF c2
          femur_deviation_increases_with_height [OF a b c1 c2]]]]])
qed

section \<open>The default scenario\<close>

lemma foot_on_ground:
  assumes "i < 6"
  shows "z (foot (joints (legs (solveHexapodIK dims pose) ! i))) = 0"
  by (simp add: foot_legs_nth [OF assms] getFixedFootPoints_nth [OF assms] fixedFootPoint_def Let_def)

lemma arccos_clamp_bounds: "0 \<le> arccos (max (- 1) (min 1 u)) \<and> arccos (max (- 1) (min 1 u)) \<le> pi"
  by (rule arccos_bounded) (simp_all add: max_def min_def)

lemma toDeg_nonneg_bounds: "0 \<le> a \<Longrightarrow> a \<le> pi \<Longrightarrow> 0 \<le> toDeg a \<and> toDeg a \<le> 180"
  by (simp add: toDeg_def field_simps)

lemma tibiaAngle_bounds:
  assumes "positiveDims dims" "i < 6"
  shows "\<exists>g. tibiaAngle (legs (solveHexapodIK dims pose) ! i) = Some g \<and> 0 \<le> g \<and> g \<le> 180"
  using toDeg_nonneg_bounds arccos_clamp_bounds
  by (simp only: tibiaAngle_Some [OF assms]) blast

lemma femurAngle_heightPose_bounds:
  assumes "positiveDims dims" "i < 6" "0 \<le> t"
  shows "\<exists>a. femurAngle (legs (solveHexapodIK dims (heightPose t)) ! i) = Some a
             \<and> - 90 < a \<and> a \<le> 180"
proof -
  let ?al = "arctan (- t / (femur dims + tibia dims * 0.5))"
  let ?c = "c dims \<lparr>x = legReach dims, y = 0, z = - t\<rparr>"
  let ?be = "arccos (max (- 1) (min 1
               ((femur dims * femur dims + ?c * ?c - tibia dims * tibia dims) / (2 * femur dims * ?c))))"
  have r: "0 < femur dims + tibia dims * 0.5"
    using assms(1) by (simp add: positiveDims_def add_pos_pos)
  have "- t / (femur dims + tibia dims * 0.5) \<le> 0"
    using assms(3) r by (simp add: divide_nonpos_pos)
  then have al: "?al \<le> 0" by (simp only: arctan_le_zero_iff)
  have al': "- (pi / 2) < ?al" by (rule arctan_lbound)
  have be: "0 \<le> ?be" "?be \<le> pi" using arccos_clamp_bounds by blast+
  have lo: "- (pi / 2) < ?al + ?be" using al' be(1) by linarith
  have hi: "?al + ?be \<le> pi" using al be(2) by linarith
  have "- 90 < toDeg (?al + ?be)"
    using lo by (simp add: toDeg_def field_simps)
  moreover have "toDeg (?al + ?be) \<le> 180"
    using hi by (simp add: toDeg_def field_simps)
  ultimately show ?thesis
    by (simp only: femurAngle_heightPose [OF assms(2)] femurAngle_rad_height_only [OF assms(1)]
          option.map) blast
qed

lemma length_bodyCorners: "length (bodyCorners (solveHexapodIK dims pose)) = 6"
  by (simp add: solveHexapodIK_def Let_def length_getLocalBodyPoints)

text \<open>
  C8. At the default dimensions (widths 100, coxa 50, femur 100, tibia 120) and the
  default pose (the identity except \<open>tz = 80\<close>) the solver returns six legs, each with
  its foot at \<open>z = 0\<close> and with a femur angle and a tibia angle that are numbers between
  -180 and 180 degrees, and six body corners.
\<close>

theorem default_scenario:
  "length (legs (solveHexapodIK DEFAULT_DIMENSIONS DEFAULT_POSE)) = 6 \<and>
   list_all
     (\<lambda>leg. z (foot (joints leg)) = 0 \<and>
            (\<exists>a. femurAngle leg = Some a \<and> - 180 \<le> a \<and> a \<le> 180) \<and>
            (\<exists>g. tibiaAngle leg = Some g \<and> - 180 \<le> g \<and> g \<le> 180))
     (legs (solveHexapodIK DEFAULT_DIMENSIONS DEFAULT_POSE)) \<and>
   length (bodyCorners (solveHexapodIK DEFAULT_DIMENSIONS DEFAULT_POSE)) = 6"
proof -
  have leg: "z (foot (joints (legs (solveHexapodIK DEFAULT_DIMENSIONS DEFAULT_POSE) ! i))) = 0 \<and>
            (\<exists>a. femurAngle (legs (solveHexapodIK DEFAULT_DIMENSIONS DEFAULT_POSE) ! i) = Some a
                 \<and> - 180 \<le> a \<and> a \<le> 180) \<and>
            (\<exists>g. tibiaAngle (legs (solveHexapodIK DEFAULT_DIMENSIONS DEFAULT_POSE) ! i) = Some g
                 \<and> - 180 \<le> g \<and> g \<le> 180)" if i: "i < 6" for i
  proof -
    obtain a where a: "femurAngle (legs (solveHexapodIK DEFAULT_DIMENSIONS DEFAULT_POSE) ! i) = Some a"
      "- 90 < a" "a \<le> 180"
      using femurAngle_heightPose_bounds [OF positiveDims_DEFAULT i, of 80]
      by (auto simp add: DEFAULT_POSE_heightPose)
    obtain g where g: "tibiaAngle (legs (solveHexapodIK DEFAULT_DIMENSIONS DEFAULT_POSE) ! i) = Some g"
      "0 \<le> g" "g \<le> 180"
      using tibiaAngle_bounds [OF positiveDims_DEFAULT i] by blast
    show ?thesis
      using a g foot_on_ground [OF i] by simp
  qed
  show ?thesis
    using leg by (simp add: length_legs length_bodyCorners list_all_length)
qed

section \<open>The tibia angle\<close>

lemma dist3_p1_p3:
  "dist3 (p1_leg dims v) (p3_leg dims v) = sqrt (reach dims v * reach dims v + height v * height v)"
proof -
  let ?ca = "coxaAngle_rad v"
  have "(coxa dims * cos ?ca - (coxa dims + reach dims v) * cos ?ca)\<^sup>2
        + (coxa dims * sin ?ca - (coxa dims + reach dims v) * sin ?ca)\<^sup>2
        + (height v)\<^sup>2 = reach dims v * reach dims v + height v * height v"
    using sin_cos_squared_add [of ?ca] by algebra
  then show ?thesis
    by (simp add: dist3_def p1_leg_def p3_leg_def p3_plane_def)
qed

lemma pivot_to_foot_local:
  "dist3 (j1_local dims v hipLocal) (j3_local dims v hipLocal) = c dims v"
  by (simp only: j1_local_def j3_local_def Let_def dist3_shift dist3_rotateZ dist3_p1_p3 c_def)

lemma pivot_to_foot:
  assumes "i < 6"
  shows "dist3 (Joints.coxa (joints (legs (solveHexapodIK dims pose) ! i)))
               (foot (joints (legs (solveHexapodIK dims pose) ! i)))
         = c dims (vLeg pose (getFixedFootPoints dims ! i) (getLocalBodyPoints dims ! i))"
  by (simp add: legs_nth [OF assms] solveLeg_def Let_def dist3_toWorld pivot_to_foot_local)

text \<open>
  C5. For positive dimensions, every pose and each leg, the reported tibia angle is, in
  degrees (the radians times \<open>180 / \<pi>\<close>), the inverse cosine of \<open>(femur\<^sup>2 + tibia\<^sup>2 - c\<^sup>2) / (2 femur tibia)\<close> clamped
  to \<open>[-1, 1]\<close>, where \<open>c = sqrt (reach\<^sup>2 + height\<^sup>2)\<close> is the distance from the
  femur pivot (the coxa joint) to the foot of that leg.
\<close>

theorem tibiaAngle_law_of_cosines:
  assumes "positiveDims dims" and "i < 6"
  shows "tibiaAngle (legs (solveHexapodIK dims pose) ! i) =
           Some (arccos (max (- 1) (min 1
             ((femur dims * femur dims + tibia dims * tibia dims
                 - c dims (vLeg pose (getFixedFootPoints dims ! i) (getLocalBodyPoints dims ! i))
                   * c dims (vLeg pose (getFixedFootPoints dims ! i) (getLocalBodyPoints dims ! i)))
                / (2 * femur dims * tibia dims)))) * 180 / pi) \<and>
         c dims (vLeg pose (getFixedFootPoints dims ! i) (getLocalBodyPoints dims ! i))
           = sqrt ((reach dims (vLeg pose (getFixedFootPoints dims ! i) (getLocalBodyPoints dims ! i)))\<^sup>2
                   + (height (vLeg pose (getFixedFootPoints dims ! i) (getLocalBodyPoints dims ! i)))\<^sup>2) \<and>
         c dims (vLeg pose (getFixedFootPoints dims ! i) (getLocalBodyPoints dims ! i))
           = dist3 (Joints.coxa (joints (legs (solveHexapodIK dims pose) ! i)))
                   (foot (joints (legs (solveHexapodIK dims pose) ! i)))"
proof -
  have "c dims (vLeg pose (getFixedFootPoints dims ! i) (getLocalBodyPoints dims ! i))
           = sqrt ((reach dims (vLeg pose (getFixedFootPoints dims ! i) (getLocalBodyPoints dims ! i)))\<^sup>2
                   + (height (vLeg pose (getFixedFootPoints dims ! i) (getLocalBodyPoints dims ! i)))\<^sup>2)"
    by (simp add: c_def power2_eq_square)
  then show ?thesis
    using tibiaAngle_Some [OF assms, of pose] pivot_to_foot [OF assms(2), of dims pose]
    by (simp add: toDeg_def)
qed

lemma default_vLeg:
  assumes "i < 6"
  shows "vLeg DEFAULT_POSE (getFixedFootPoints DEFAULT_DIMENSIONS ! i)
           (getLocalBodyPoints DEFAULT_DIMENSIONS ! i) = \<lparr>x = 210, y = 0, z = - 80\<rparr>"
proof -
  have "legReach DEFAULT_DIMENSIONS = 210"
    by (simp add: legReach_def DEFAULT_DIMENSIONS_def)
  then show ?thesis
    using leg_vLeg_heightPose [OF assms, of 80 DEFAULT_DIMENSIONS]
    by (simp add: DEFAULT_POSE_heightPose)
qed

lemma default_c_squared:
  "c DEFAULT_DIMENSIONS \<lparr>x = 210, y = 0, z = - 80\<rparr>
     * c DEFAULT_DIMENSIONS \<lparr>x = 210, y = 0, z = - 80\<rparr> = 32000"
proof -
  have l: "legReach DEFAULT_DIMENSIONS = 210"
    by (simp add: legReach_def DEFAULT_DIMENSIONS_def)
  have "c DEFAULT_DIMENSIONS \<lparr>x = 210, y = 0, z = - 80\<rparr> = sqrt 32000"
    using planar_height_only(4) [OF positiveDims_DEFAULT, of 80]
    by (simp add: l) (simp add: DEFAULT_DIMENSIONS_def)
  then show ?thesis by simp
qed

lemma arccos_half: "arccos (1 / 2) = pi / 3"
  using arccos_cos [of "pi / 3"] by (simp add: cos_60)

lemma arccos_default_knee_bounds:
  "pi / 2 < arccos (- (19 / 60))" "arccos (- (19 / 60)) < 2 * pi / 3"
proof -
  have "arccos 0 < arccos (- (19 / 60))"
    by (rule arccos_less_arccos) simp_all
  then show "pi / 2 < arccos (- (19 / 60))" by simp
  have "arccos (- (19 / 60)) < arccos (- (1 / 2))"
    by (rule arccos_less_arccos) simp_all
  moreover have "arccos (- (1 / 2)) = pi - arccos (1 / 2)"
    by (rule arccos_minus) simp_all
  ultimately show "arccos (- (19 / 60)) < 2 * pi / 3"
    by (simp add: arccos_half)
qed

theorem tibiaAngle_law_of_cosines_witness:
  "positiveDims DEFAULT_DIMENSIONS \<and> (2::nat) < 6 \<and>
   tibiaAngle (legs (solveHexapodIK DEFAULT_DIMENSIONS DEFAULT_POSE) ! 2)
     = Some (arccos (- (19 / 60)) * 180 / pi) \<and>
   90 < arccos (- (19 / 60)) * 180 / pi \<and> arccos (- (19 / 60)) * 180 / pi < 120"
proof -
  have a: "positiveDims DEFAULT_DIMENSIONS"
    by (simp add: positiveDims_def DEFAULT_DIMENSIONS_def)
  have b: "(2::nat) < 6" by simp
  have t: "tibiaAngle (legs (solveHexapodIK DEFAULT_DIMENSIONS DEFAULT_POSE) ! 2)
     = Some (arccos (- (19 / 60)) * 180 / pi)"
    using tibiaAngle_law_of_cosines [OF a b, of DEFAULT_POSE]
    by (simp add: default_vLeg default_c_squared) (simp add: DEFAULT_DIMENSIONS_def)
  have lo: "90 < arccos (- (19 / 60)) * 180 / pi"
    using arccos_default_knee_bounds(1) by (simp add: field_simps)
  have hi: "arccos (- (19 / 60)) * 180 / pi < 120"
    using arccos_default_knee_bounds(2) by (simp add: field_simps)
  show ?thesis using a b t lo hi by simp
qed

section \<open>Rounding moves the foot off its fixed foot point\<close>

lemma fl_zero: "fl 0 = 0"
  by (simp add: fl_def)

lemma rne_of_int: "rne (of_int n) = n"
  by (simp add: rne_def)

lemma rne_numeral: "rne (numeral w) = numeral w"
  using rne_of_int [of "numeral w"] by simp

lemma rne_down: "of_int f \<le> q \<Longrightarrow> q < of_int f + 1 / 2 \<Longrightarrow> rne q = f"
proof -
  assume a: "of_int f \<le> q" "q < of_int f + 1 / 2"
  then have "\<lfloor>q\<rfloor> = f" by linarith
  then show ?thesis using a by (simp add: rne_def)
qed

lemma rne_up: "of_int f + 1 / 2 < q \<Longrightarrow> q < of_int f + 1 \<Longrightarrow> rne q = f + 1"
proof -
  assume a: "of_int f + 1 / 2 < q" "q < of_int f + 1"
  then have "\<lfloor>q\<rfloor> = f" by linarith
  then show ?thesis using a by (simp add: rne_def)
qed

lemma rne_tie_even: "q = of_int f + 1 / 2 \<Longrightarrow> even f \<Longrightarrow> rne q = f"
proof -
  assume a: "q = of_int f + 1 / 2" "even f"
  then have "\<lfloor>q\<rfloor> = f" by linarith
  then show ?thesis using a by (simp add: rne_def)
qed

lemma floor_log2:
  assumes "2 ^ k \<le> r" "r < 2 ^ Suc k"
  shows "\<lfloor>log 2 r\<rfloor> = int k"
proof -
  have "(0::real) < 2 ^ k" by simp
  then have r: "0 < r" using assms(1) by linarith
  have "2 powr (of_int (int k)) \<le> r \<and> r < 2 powr (of_int (int k + 1))"
    using assms by (simp add: powr_realpow powr_add)
  then show ?thesis
    using floor_log_eq_powr_iff [of r 2 "int k"] r by simp
qed

lemma fl_eval:
  assumes "2 ^ k \<le> r" "r < 2 ^ Suc k" "rne (r * 2 ^ 52 / 2 ^ k) = n"
  shows "fl r = of_int n * 2 ^ k / 2 ^ 52"
proof -
  have "(0::real) < 2 ^ k" by simp
  then have r: "0 < r" using assms(1) by linarith
  have e: "\<lfloor>log 2 \<bar>r\<bar>\<rfloor> = int k"
    using r floor_log2 [OF assms(1,2)] by simp
  have "(2::real) powr of_int (int k - 52) = 2 powr (real k) / 2 powr 52"
    by (simp add: powr_diff)
  also have "\<dots> = 2 ^ k / 2 ^ 52"
    by (simp add: powr_realpow)
  finally have u: "(2::real) powr of_int (\<lfloor>log 2 \<bar>r\<bar>\<rfloor> - 52) = 2 ^ k / 2 ^ 52"
    by (simp only: e)
  have q: "r / (2 ^ k / 2 ^ 52) = r * 2 ^ 52 / 2 ^ k"
    by simp
  have "fl r = of_int (rne (r / (2 ^ k / 2 ^ 52))) * (2 ^ k / 2 ^ 52)"
    using r unfolding fl_def Let_def u by simp
  then show ?thesis
    unfolding q assms(3) by simp
qed

lemma fl_1: "fl 1 = 1"
  using fl_eval [of 0 1 "4503599627370496"] by (simp add: rne_numeral)

lemma fl_2: "fl 2 = 2"
  using fl_eval [of 1 2 "4503599627370496"] by (simp add: rne_numeral)

lemma fl_4: "fl 4 = 4"
  using fl_eval [of 2 4 "4503599627370496"] by (simp add: rne_numeral)

lemma fl_2p52: "fl 4503599627370496 = 4503599627370496"
  using fl_eval [of 52 4503599627370496 "4503599627370496"] by (simp add: rne_numeral)

lemma fl_2p52_1: "fl 4503599627370497 = 4503599627370497"
  using fl_eval [of 52 4503599627370497 "4503599627370497"] by (simp add: rne_numeral)

lemma fl_2p52_2: "fl 4503599627370498 = 4503599627370498"
  using fl_eval [of 52 4503599627370498 "4503599627370498"] by (simp add: rne_numeral)

lemma fl_2p52_3: "fl 4503599627370499 = 4503599627370499"
  using fl_eval [of 52 4503599627370499 "4503599627370499"] by (simp add: rne_numeral)

lemma fl_tie: "fl (9007199254740993 / 2) = 4503599627370496"
proof -
  have "rne (9007199254740993 / 2) = 4503599627370496"
    by (rule rne_tie_even) simp_all
  then show ?thesis
    using fl_eval [of 52 "9007199254740993 / 2" "4503599627370496"] by simp
qed

lemma fl_square: "fl 20282409603651679431146506027009 = 20282409603651679431146506027008"
proof -
  have "rne (20282409603651679431146506027009 * 2 ^ 52 / 2 ^ 104) = 4503599627370498"
    by (rule rne_down) simp_all
  then show ?thesis
    using fl_eval [of 104 20282409603651679431146506027009 4503599627370498] by simp
qed

lemma fl_square_exact: "fl 20282409603651679431146506027008 = 20282409603651679431146506027008"
  using fl_eval [of 104 20282409603651679431146506027008 4503599627370498]
  by (simp add: rne_numeral)

lemma sqrt_bounds:
  "9007199254740993 / 2 < sqrt 20282409603651679431146506027008"
  "sqrt 20282409603651679431146506027008 < 4503599627370497"
proof -
  show "9007199254740993 / 2 < sqrt 20282409603651679431146506027008"
    by (rule real_less_rsqrt) (simp add: power2_eq_square)
  show "sqrt 20282409603651679431146506027008 < 4503599627370497"
    by (rule real_less_lsqrt) (simp_all add: power2_eq_square)
qed

lemma fl_sqrt: "fl (sqrt 20282409603651679431146506027008) = 4503599627370497"
proof -
  let ?r = "sqrt 20282409603651679431146506027008"
  have "rne ?r = 4503599627370496 + 1"
    using sqrt_bounds by (intro rne_up) simp_all
  then have n: "rne (?r * 2 ^ 52 / 2 ^ 52) = 4503599627370497" by simp
  have lo: "2 ^ 52 \<le> ?r" using sqrt_bounds(1) by simp
  have hi: "?r < 2 ^ Suc 52" using sqrt_bounds(2) by simp
  show ?thesis
    using fl_eval [OF lo hi n] by simp
qed

lemmas fl_vals = fl_zero fl_1 fl_2 fl_4 fl_2p52 fl_2p52_1 fl_2p52_2 fl_2p52_3 fl_tie fl_square fl_square_exact fl_sqrt

lemma f64_fixed_foot:
  "getFixedFootPoints_f64
     \<lparr>front = 1, side = 1, middle = 2, coxa = 1 / 2, femur = 9007199254740991 / 2, tibia = 2\<rparr> ! 0
   = \<lparr>x = 4503599627370499, y = 0, z = 0\<rparr>"
  by (simp add: getFixedFootPoints_f64_def getLocalBodyPoints_def fixedFootPoint_f64_def Let_def
        legReach_f64_def Math_atan2_f64_def Math_sqrt_f64_def Math_cos_f64_def Math_sin_f64_def
        atan2_def fl_vals)

lemma f64_vLeg:
  "vLeg_f64 \<lparr>tx = 0, ty = 0, tz = 0, rx = 0, ry = 0, rz = 0\<rparr>
     \<lparr>x = 4503599627370499, y = 0, z = 0\<rparr> \<lparr>x = 2, y = 0, z = 0\<rparr>
   = \<lparr>x = 4503599627370497, y = 0, z = 0\<rparr>"
  by (simp add: vLeg_f64_def vLocal_f64_def fLocal_f64_def rotateX_f64_def rotateY_f64_def
        rotateZ_f64_def toRad_f64_def mountAngle_f64_def Math_atan2_f64_def Math_cos_f64_def
        Math_sin_f64_def atan2_def fl_vals)

lemma f64_j3_local:
  "j3_local_f64
     \<lparr>front = 1, side = 1, middle = 2, coxa = 1 / 2, femur = 9007199254740991 / 2, tibia = 2\<rparr>
     \<lparr>x = 4503599627370497, y = 0, z = 0\<rparr> \<lparr>x = 2, y = 0, z = 0\<rparr>
   = \<lparr>x = 4503599627370498, y = 0, z = 0\<rparr>"
  by (simp add: j3_local_f64_def Let_def p3_leg_f64_def p3_plane_f64_def reach_f64_def
        planarDist_f64_def height_def coxaAngle_f64_def mountAngle_f64_def rotateZ_f64_def
        Math_atan2_f64_def Math_sqrt_f64_def Math_cos_f64_def Math_sin_f64_def atan2_def fl_vals)

lemma f64_foot:
  "foot_f64
     \<lparr>front = 1, side = 1, middle = 2, coxa = 1 / 2, femur = 9007199254740991 / 2, tibia = 2\<rparr>
     \<lparr>tx = 0, ty = 0, tz = 0, rx = 0, ry = 0, rz = 0\<rparr> 0
   = \<lparr>x = 4503599627370498, y = 0, z = 0\<rparr>"
proof -
  have h: "getLocalBodyPoints
     \<lparr>front = 1, side = 1, middle = 2, coxa = 1 / 2, femur = 9007199254740991 / 2, tibia = 2\<rparr> ! 0
     = \<lparr>x = 2, y = 0, z = 0\<rparr>"
    by (simp add: getLocalBodyPoints_def)
  show ?thesis
    unfolding foot_f64_def Let_def f64_fixed_foot h f64_vLeg f64_j3_local
    by (simp add: toWorld_f64_def Let_def rotateX_f64_def rotateY_f64_def rotateZ_f64_def
          toRad_f64_def Math_cos_f64_def Math_sin_f64_def fl_vals)
qed

text \<open>
  C1 as stated also bounds the binary64 result: at the pose \<open>(0, 0, 0, 0, 0, 0)\<close> the
  foot is within \<open>10\<^sup>-\<^sup>6\<close> of its fixed foot point for any positive dimensions. With
  \<open>front = side = 1\<close>, \<open>middle = 2\<close>, \<open>coxa = 0.5\<close>, \<open>femur = 2\<^sup>5\<^sup>2 - 0.5\<close> and
  \<open>tibia = 2\<close>, all binary64 numbers, the fixed foot point of leg 0 is
  \<open>(2\<^sup>5\<^sup>2 + 3, 0, 0)\<close> and the foot that the solver reconstructs is
  \<open>(2\<^sup>5\<^sup>2 + 2, 0, 0)\<close>: \<^verbatim>\<open>planarDist\<close> is \<open>2\<^sup>5\<^sup>2 + 1\<close>, and both
  \<^verbatim>\<open>reach = planarDist - coxa\<close> and \<^verbatim>\<open>coxa + reach\<close> are ties that round to the even
  \<open>2\<^sup>5\<^sup>2\<close>. The two points are 1 apart.
\<close>

theorem foot_binary64_counterexample:
  "positiveDims
     \<lparr>front = 1, side = 1, middle = 2, coxa = 1 / 2, femur = 9007199254740991 / 2, tibia = 2\<rparr> \<and>
   getFixedFootPoints_f64
     \<lparr>front = 1, side = 1, middle = 2, coxa = 1 / 2, femur = 9007199254740991 / 2, tibia = 2\<rparr> ! 0
     = \<lparr>x = 4503599627370499, y = 0, z = 0\<rparr> \<and>
   foot_f64
     \<lparr>front = 1, side = 1, middle = 2, coxa = 1 / 2, femur = 9007199254740991 / 2, tibia = 2\<rparr>
     \<lparr>tx = 0, ty = 0, tz = 0, rx = 0, ry = 0, rz = 0\<rparr> 0
     = \<lparr>x = 4503599627370498, y = 0, z = 0\<rparr> \<and>
   1 / 1000000 <
     dist3
       (foot_f64
          \<lparr>front = 1, side = 1, middle = 2, coxa = 1 / 2, femur = 9007199254740991 / 2, tibia = 2\<rparr>
          \<lparr>tx = 0, ty = 0, tz = 0, rx = 0, ry = 0, rz = 0\<rparr> 0)
       (getFixedFootPoints_f64
          \<lparr>front = 1, side = 1, middle = 2, coxa = 1 / 2, femur = 9007199254740991 / 2, tibia = 2\<rparr> ! 0)"
  by (simp add: f64_foot f64_fixed_foot positiveDims_def dist3_def)

end
